theory Spec2Isabelle
  imports Main "HOL-Library.Log_Nat"
begin

section \<open>The node cache storage (class Storage, src/unnamed/part_001)\<close>

text \<open>
  The class keeps one object \<open>inMemoryCache\<close> with five sections, each a dictionary from
  cache keys to entities, and a list of change emitters (callbacks). The callbacks are
  opaque to the class: an emitter is modelled by its index in the list, and a call of it is
  recorded in \<open>emitted\<close>. Output on the console is not modelled.

  An entity is \<open>string | object\<close> in the source; the lookups test its truthiness
  (\<open>cache.accounts[key] || null\<close>, \<open>!!cache.accounts[key]\<close>), and an empty string is
  falsy.
\<close>

datatype cache_value = StringValue string | ObjectValue "(string \<times> string) list"

fun truthy_value :: "cache_value \<Rightarrow> bool" where
  "truthy_value (StringValue s) = (s \<noteq> [])"
| "truthy_value (ObjectValue fs) = True"

text \<open>
  The constants of \<open>CacheSchemaType\<close> and \<open>CredentialType\<close> come from the common
  library. A \<open>type\<close> argument is a string or undefined: \<open>None\<close> is undefined and
  \<open>INVALID_SCHEMA_TYPE\<close> stands for every string that is none of the three constants.
  \<open>CacheHelper.getCredentialType\<close> is a function of the common library too; it is the
  parameter \<open>gct\<close> below, \<open>None\<close> when its result is none of the three credential types.
\<close>

datatype cache_schema_type = ACCOUNT | CREDENTIAL | APP_META_DATA | INVALID_SCHEMA_TYPE

datatype credential_type = ID_TOKEN | ACCESS_TOKEN | REFRESH_TOKEN

record in_memory_cache =
  accounts :: "string \<rightharpoonup> cache_value"
  accessTokens :: "string \<rightharpoonup> cache_value"
  refreshTokens :: "string \<rightharpoonup> cache_value"
  appMetadata :: "string \<rightharpoonup> cache_value"
  idTokens :: "string \<rightharpoonup> cache_value"

record node_storage =
  inMemoryCache :: in_memory_cache
  changeEmitters :: "nat list"
  emitted :: "nat list"

text \<open>What \<open>getItem\<close> returns: the empty object \<open>{}\<close>, \<open>null\<close>, or an entity.\<close>

datatype item_result = EmptyObject | Null | Entity cache_value

definition registerChangeEmitter :: "nat \<Rightarrow> node_storage \<Rightarrow> node_storage" where
  "registerChangeEmitter func s = s\<lparr>changeEmitters := changeEmitters s @ [func]\<rparr>"

definition emitChange :: "node_storage \<Rightarrow> node_storage" where
  "emitChange s = s\<lparr>emitted := emitted s @ changeEmitters s\<rparr>"

definition getCache :: "node_storage \<Rightarrow> in_memory_cache" where
  "getCache s = inMemoryCache s"

definition setCache :: "in_memory_cache \<Rightarrow> node_storage \<Rightarrow> node_storage" where
  "setCache c s = emitChange (s\<lparr>inMemoryCache := c\<rparr>)"

definition setItem ::
  "(string \<Rightarrow> credential_type option) \<Rightarrow> string \<Rightarrow> cache_value \<Rightarrow>
   cache_schema_type option \<Rightarrow> bool \<Rightarrow> node_storage \<Rightarrow> node_storage" where
  "setItem gct key v type inMemory s =
     (if \<not> inMemory then s
      else
        let cache = getCache s in
        (case type of
           Some ACCOUNT \<Rightarrow>
             emitChange (setCache (cache\<lparr>accounts := (accounts cache)(key \<mapsto> v)\<rparr>) s)
         | Some CREDENTIAL \<Rightarrow>
             emitChange (setCache
               (case gct key of
                  Some ID_TOKEN \<Rightarrow> cache\<lparr>idTokens := (idTokens cache)(key \<mapsto> v)\<rparr>
                | Some ACCESS_TOKEN \<Rightarrow> cache\<lparr>accessTokens := (accessTokens cache)(key \<mapsto> v)\<rparr>
                | Some REFRESH_TOKEN \<Rightarrow> cache\<lparr>refreshTokens := (refreshTokens cache)(key \<mapsto> v)\<rparr>
                | None \<Rightarrow> cache) s)
         | Some APP_META_DATA \<Rightarrow>
             emitChange (setCache (cache\<lparr>appMetadata := (appMetadata cache)(key \<mapsto> v)\<rparr>) s)
         | _ \<Rightarrow> s))"

text \<open>\<open>(section[key] as Entity) || null\<close>.\<close>

definition or_null :: "cache_value option \<Rightarrow> item_result" where
  "or_null e = (case e of None \<Rightarrow> Null | Some v \<Rightarrow> (if truthy_value v then Entity v else Null))"

definition getItem ::
  "(string \<Rightarrow> credential_type option) \<Rightarrow> string \<Rightarrow> cache_schema_type option \<Rightarrow> bool \<Rightarrow>
   node_storage \<Rightarrow> item_result" where
  "getItem gct key type inMemory s =
     (if \<not> inMemory then EmptyObject
      else
        let cache = getCache s in
        (case type of
           Some ACCOUNT \<Rightarrow> or_null (accounts cache key)
         | Some CREDENTIAL \<Rightarrow>
             (case gct key of
                Some ID_TOKEN \<Rightarrow> or_null (idTokens cache key)
              | Some ACCESS_TOKEN \<Rightarrow> or_null (accessTokens cache key)
              | Some REFRESH_TOKEN \<Rightarrow> or_null (refreshTokens cache key)
              | None \<Rightarrow> Null)
         | Some APP_META_DATA \<Rightarrow> or_null (appMetadata cache key)
         | _ \<Rightarrow> EmptyObject))"

text \<open>\<open>!!section[key]\<close>: the key holds a truthy entity.\<close>

definition holds :: "(string \<rightharpoonup> cache_value) \<Rightarrow> string \<Rightarrow> bool" where
  "holds m key = (case m key of None \<Rightarrow> False | Some v \<Rightarrow> truthy_value v)"

text \<open>
  \<open>removeItem\<close> returns its boolean result and the storage; the cache is written back
  (\<open>setCache\<close>, then \<open>emitChange\<close>) only when an entry was deleted.
\<close>

definition removed :: "in_memory_cache \<Rightarrow> node_storage \<Rightarrow> bool \<times> node_storage" where
  "removed c s = (True, emitChange (setCache c s))"

definition removeItem ::
  "(string \<Rightarrow> credential_type option) \<Rightarrow> string \<Rightarrow> cache_schema_type option \<Rightarrow> bool \<Rightarrow>
   node_storage \<Rightarrow> bool \<times> node_storage" where
  "removeItem gct key type inMemory s =
     (if \<not> inMemory then (False, s)
      else
        let cache = getCache s in
        (case type of
           Some ACCOUNT \<Rightarrow>
             (if holds (accounts cache) key
              then removed (cache\<lparr>accounts := (accounts cache)(key := None)\<rparr>) s
              else (False, s))
         | Some CREDENTIAL \<Rightarrow>
             (case gct key of
                Some ID_TOKEN \<Rightarrow>
                  (if holds (idTokens cache) key
                   then removed (cache\<lparr>idTokens := (idTokens cache)(key := None)\<rparr>) s
                   else (False, s))
              | Some ACCESS_TOKEN \<Rightarrow>
                  (if holds (accessTokens cache) key
                   then removed (cache\<lparr>accessTokens := (accessTokens cache)(key := None)\<rparr>) s
                   else (False, s))
              | Some REFRESH_TOKEN \<Rightarrow>
                  (if holds (refreshTokens cache) key
                   then removed (cache\<lparr>refreshTokens := (refreshTokens cache)(key := None)\<rparr>) s
                   else (False, s))
              | None \<Rightarrow> (False, s))
         | Some APP_META_DATA \<Rightarrow>
             (if holds (appMetadata cache) key
              then removed (cache\<lparr>appMetadata := (appMetadata cache)(key := None)\<rparr>) s
              else (False, s))
         | _ \<Rightarrow> (False, s)))"

text \<open>\<open>key ? true : false\<close> on a string: the empty string is the only falsy one.\<close>

definition containsKey :: "node_storage \<Rightarrow> string \<Rightarrow> bool" where
  "containsKey s key = (if key \<noteq> [] then True else False)"

text \<open>
  \<open>Object.keys\<close>. On the cache object it lists the names of its sections, in the order
  of the object literal that creates it. On a string it lists the indices of its
  characters, in decimal: \<open>Object.keys("idTokens")\<close> is \<open>["0", ..., "7"]\<close>.
\<close>

fun string_of_nat :: "nat \<Rightarrow> string" where
  "string_of_nat n =
     (if n < 10 then [''0123456789'' ! n]
      else string_of_nat (n div 10) @ [''0123456789'' ! (n mod 10)])"

declare string_of_nat.simps [simp del]

definition object_keys_cache :: "in_memory_cache \<Rightarrow> string list" where
  "object_keys_cache c =
     [''accounts'', ''accessTokens'', ''refreshTokens'', ''appMetadata'', ''idTokens'']"

definition object_keys_string :: "string \<Rightarrow> string list" where
  "object_keys_string k = map string_of_nat [0 ..< length k]"

definition getKeys :: "bool \<Rightarrow> node_storage \<Rightarrow> string list" where
  "getKeys inMemory s =
     (if \<not> inMemory then []
      else concat (map object_keys_string (object_keys_cache (getCache s))))"

text \<open>
  \<open>clear\<close>: the inner call is \<open>this.removeItem(internalKey)\<close>, with neither a type nor
  \<open>inMemory\<close>, so both are undefined there.
\<close>

definition clear :: "(string \<Rightarrow> credential_type option) \<Rightarrow> bool \<Rightarrow> node_storage \<Rightarrow> node_storage" where
  "clear gct inMemory s =
     (if \<not> inMemory then s
      else
        emitChange
          (fold (\<lambda>key s1.
                   fold (\<lambda>internalKey s2. snd (removeItem gct internalKey None False s2))
                     (object_keys_string key) s1)
             (object_keys_cache (getCache s)) s))"

section \<open>The single-page-application client (class SPAClient, src/unnamed/part_000)\<close>

subsection \<open>Errors\<close>

text \<open>
  Every \<open>throw\<close> of the class is a constructor: the errors that \<open>ClientAuthError\<close> and
  \<open>ClientConfigurationError\<close> create in the source, the two that wrap the error they
  caught, and \<open>ServerError\<close> with the server's error code and description. An error raised
  inside a collaborator that is not part of the sources (the network client, a decoder) is a
  \<open>CollaboratorError\<close>. A function that can throw returns \<open>error + 'a\<close>, \<open>Inl\<close> the error.
\<close>

datatype error =
    EmptyTokenRequestError
  | RedirectUriEmptyError
  | TokenRequestCannotBeMadeError
  | UserLoginRequiredError
  | EndpointDiscoveryIncompleteError error
  | TokenRequestCacheError error
  | NoTokensFoundError string
  | MultipleMatchingTokensInCacheError string
  | ServerError string string
  | CollaboratorError string

subsection \<open>Data\<close>

text \<open>
  The objects the client reads and builds, with the fields it uses. An optional property
  of the source (\<open>authority?: string\<close>) is an \<open>option\<close>; \<open>None\<close> is undefined or null.
  Where two classes have a field of the same name the record's name qualifies it
  (\<open>Request.scopes\<close>, \<open>TokenResponse.scopes\<close>).
\<close>

record Account =
  homeAccountIdentifier :: string
  userName :: string

text \<open>
  An authority with the three members the client uses; \<open>discoveryComplete\<close> is the answer
  of the method of that name.
\<close>

record Authority =
  canonicalAuthority :: string
  tokenEndpoint :: string
  discoveryComplete :: bool

text \<open>
  \<open>AuthenticationParameters\<close>, \<open>TokenExchangeParameters\<close> and \<open>TokenRenewParameters\<close>
  are structurally compatible interfaces (the client passes a \<open>TokenRenewParameters\<close> where
  a \<open>TokenExchangeParameters\<close> is expected), so one record has the fields the client reads
  of any of them. An absent \<open>forceRefresh\<close> is falsy, hence \<open>False\<close>.
\<close>

record Request =
  scopes :: "string list option"
  authority :: "string option"
  resource :: "string option"
  account :: "Account option"
  forceRefresh :: bool
  extraScopesToConsent :: "string list option"
  prompt :: "string option"
  loginHint :: "string option"
  correlationId :: "string option"
  userRequestState :: "string option"
  extraQueryParameters :: "(string \<times> string) list option"

record CodeResponse =
  code :: "string option"
  userRequestState :: "string option"

record AccessTokenKey =
  authority :: string
  clientId :: string
  scopes :: string
  resource :: string
  homeAccountIdentifier :: string

text \<open>
  A JavaScript number: NaN, an infinity, or a finite double, given by its value, which is
  a rational. Minus zero is not told from zero: the client tests the number, compares it
  and multiplies it, and none of these tells the two apart.
\<close>

datatype js_number = NaN | NegInfinity | PosInfinity | Finite rat

text \<open>A number as a condition: NaN and zero are falsy.\<close>

fun truthy_number :: "js_number \<Rightarrow> bool" where
  "truthy_number NaN = False"
| "truthy_number NegInfinity = True"
| "truthy_number PosInfinity = True"
| "truthy_number (Finite q) = (q \<noteq> 0)"

text \<open>\<open>x > m\<close> for a whole number \<open>m\<close>: false for NaN.\<close>

fun number_greater :: "js_number \<Rightarrow> int \<Rightarrow> bool" where
  "number_greater NaN m = False"
| "number_greater NegInfinity m = False"
| "number_greater PosInfinity m = True"
| "number_greater (Finite q) m = (of_int m < q)"

text \<open>
  The product of two doubles is the double nearest to the exact product, a tie going to
  the even significand. \<open>binary_exponent x\<close> is the exponent of the power of two at or
  below a positive \<open>x\<close>; a double has 53 significant bits, so the doubles around \<open>x\<close> are
  the multiples of two to the power of that exponent less 52. The range of the exponent
  is not limited here: a product beyond the largest double is an infinity in JavaScript
  and a product below the smallest normal double is rounded more coarsely, which a date
  does not tell apart, since the first is beyond the range of dates either way and the
  second is cut to \<open>0\<close> either way.
\<close>

definition binary_exponent :: "rat \<Rightarrow> int" where
  "binary_exponent x =
     (if 1 \<le> x then bitlen \<lfloor>x\<rfloor> - 1 else - bitlen (\<lceil>1 / x\<rceil> - 1))"

definition round_half_even :: "rat \<Rightarrow> int" where
  "round_half_even x =
     (let f = \<lfloor>x\<rfloor>; d = x - of_int f
      in if d < 1 / 2 then f
         else if 1 / 2 < d then f + 1
         else if even f then f else f + 1)"

definition round_double :: "rat \<Rightarrow> rat" where
  "round_double x =
     (if x = 0 then 0
      else let e = binary_exponent \<bar>x\<bar> - 52
           in of_int (round_half_even (x / 2 powi e)) * 2 powi e)"

text \<open>The whole part of a number, as \<open>ToIntegerOrInfinity\<close> takes it: towards zero.\<close>

definition toInteger :: "rat \<Rightarrow> int" where
  "toInteger x = (if 0 \<le> x then \<lfloor>x\<rfloor> else \<lceil>x\<rceil>)"

text \<open>
  \<open>new Date(x * 1000)\<close>, as the time value of the date in milliseconds: \<open>None\<close> is the
  Invalid Date, which a product that is not finite or is beyond 8.64e15 milliseconds on
  either side gives; a fraction of a millisecond is cut off.
\<close>

definition newDate_of_seconds :: "js_number \<Rightarrow> int option" where
  "newDate_of_seconds x =
     (case x of
        Finite q \<Rightarrow>
          (let v = round_double (q * 1000)
           in if \<bar>v\<bar> \<le> 8640000000000000 then Some (toInteger v) else None)
      | _ \<Rightarrow> None)"

text \<open>
  \<open>expiresOnSec\<close> holds \<open>Number(cachedTokenItem.value.expiresOnSec)\<close>, the only way the
  client reads the field: NaN when the property is undefined or not numeric; an empty
  string and null convert to \<open>0\<close>.
\<close>

record AccessTokenValue =
  accessToken :: string
  idToken :: "string option"
  refreshToken :: string
  tokenType :: string
  expiresOnSec :: js_number

record AccessTokenCacheItem =
  key :: AccessTokenKey
  value' :: AccessTokenValue

record IdToken =
  rawIdToken :: string
  claims :: "(string \<times> string) list"

record ClientInfo =
  uid :: string
  utid :: string

text \<open>
  \<open>expiresOn\<close> is the time value of the \<open>Date\<close>, in milliseconds; \<open>None\<close> is the
  Invalid Date.
\<close>

record TokenResponse =
  uniqueId :: string
  tenantId :: string
  scopes :: "string list"
  tokenType :: string
  idToken :: string
  idTokenClaims :: "(string \<times> string) list option"
  accessToken :: string
  refreshToken :: string
  expiresOn :: "int option"
  account :: "Account option"
  userRequestState :: string

text \<open>The body of the token endpoint's answer, with the fields of the wire format.\<close>

record ServerAuthorizationTokenResponse =
  error :: "string option"
  error_description :: "string option"
  access_token :: "string option"
  refresh_token :: "string option"
  id_token :: "string option"
  expires_in :: "int option"
  token_type :: "string option"
  scope :: "string option"
  client_info :: "string option"

text \<open>The arguments of \<open>new ServerTokenRequestParameters(...)\<close>, the crypto object apart.\<close>

record ServerTokenRequestParameters =
  clientIdParam :: string
  tokenRequestParam :: Request
  codeResponseParam :: "CodeResponse option"
  redirectUriParam :: string
  refreshTokenParam :: "string option"

text \<open>
  \<open>config.authOptions.redirectUri\<close> is a string or a function returning one;
  \<open>RedirectFunction v\<close> is a function that returns \<open>v\<close>.
\<close>

datatype redirect_uri = RedirectAbsent | RedirectString string | RedirectFunction string

record AuthOptions =
  clientId :: string
  redirectUri :: redirect_uri

record SystemOptions =
  tokenRenewalOffsetSeconds :: int

record ClientConfiguration =
  authOptions :: AuthOptions
  systemOptions :: SystemOptions

record PkceCodes =
  verifier :: string
  challenge :: string

subsection \<open>The client's state\<close>

text \<open>
  The fields of the instance that the methods read and write: the configuration, the
  default authority (whose endpoints a discovery fills in), the current account, and the
  key-value store \<open>cacheStorage\<close> (the cache manager works on the same store). Two more
  components make effects visible: \<open>entropy\<close> counts the values drawn from the crypto
  object, which answers a different one each time, and \<open>calls\<close> records, in order, each
  request sent to the network (endpoint discovery, the POST to the token endpoint) and
  each query for the cached access tokens.
\<close>

datatype collaborator_call =
    ResolveEndpointsCall string
  | SendPostCall string string
  | GetAllAccessTokensCall string string string string

record SPAClient =
  config :: ClientConfiguration
  defaultAuthority :: Authority
  account :: "Account option"
  cacheStorage :: "string \<rightharpoonup> string"
  entropy :: nat
  calls :: "collaborator_call list"

text \<open>The calls that use the network transport for a token request.\<close>

fun isSendPost :: "collaborator_call \<Rightarrow> bool" where
  "isSendPost (SendPostCall endpoint body) = True"
| "isSendPost other = False"

subsection \<open>Collaborators outside the sources\<close>

text \<open>
  The classes the client imports from the rest of the common library are not among the
  sources: the authority factory, \<open>ScopeSet\<close> (its type is the parameter \<open>'ss\<close>), the
  crypto object, \<open>ProtocolUtils\<close>, the prompt validation, the cache manager, the network
  client, \<open>ServerTokenRequestParameters\<close>, \<open>ResponseHandler\<close>, the decoders of the id token
  and of the client info, the clock, and the names of the cache keys. A record holds what
  each of them answers, and every theorem below holds for every such record. Those that
  make a request, decode or validate can throw, and so can the constructor of a scope set
  from what a caller requested (\<open>newScopeSet\<close>) and \<open>appendScopes\<close>, which is given the
  caller's \<open>extraScopesToConsent\<close>, undefined included. \<open>fromString\<close> is applied only to
  the scope string in the key of a cached entry, which the library wrote there from a scope
  set, and is taken to succeed; where the answer from the cache parses the scopes of the
  entry, the filter of the lookup has parsed the same string with the same arguments
  before. \<open>createTokenResponse\<close> writes the credentials into the
  store, so it takes the store and returns it. \<open>cryptoUtils.base64Decode\<close> is given what
  \<open>getItem\<close> returned, null included.
\<close>

record 'ss env =
  createInstance :: "string \<Rightarrow> Authority"
  resolveEndpointsAsync :: "Authority \<Rightarrow> error + Authority"
  newScopeSet :: "string list \<Rightarrow> string \<Rightarrow> bool \<Rightarrow> error + 'ss"
  fromString :: "string \<Rightarrow> string \<Rightarrow> bool \<Rightarrow> 'ss"
  appendScopes :: "'ss \<Rightarrow> string list option \<Rightarrow> error + 'ss"
  isLoginScopeSet :: "'ss \<Rightarrow> bool"
  containsScopeSet :: "'ss \<Rightarrow> 'ss \<Rightarrow> bool"
  printScopes :: "'ss \<Rightarrow> string"
  asArray :: "'ss \<Rightarrow> string list"
  createNewGuid :: "nat \<Rightarrow> string"
  generatePkceCodes :: "nat \<Rightarrow> PkceCodes"
  base64Decode :: "string option \<Rightarrow> error + string"
  JSON_parse :: "string \<Rightarrow> error + Request"
  setRequestState :: "string option \<Rightarrow> string \<Rightarrow> string"
  validatePrompt :: "string \<Rightarrow> error option"
  getAllAccessTokens ::
    "(string \<rightharpoonup> string) \<Rightarrow> string \<Rightarrow> string \<Rightarrow> string \<Rightarrow> string \<Rightarrow> AccessTokenCacheItem list"
  resetTempCacheItems :: "string option \<Rightarrow> (string \<rightharpoonup> string) \<Rightarrow> (string \<rightharpoonup> string)"
  generateAuthorityKey :: "string option \<Rightarrow> string"
  sendPostRequestAsync ::
    "string \<Rightarrow> string \<Rightarrow> (string \<times> string) list \<Rightarrow> error + ServerAuthorizationTokenResponse"
  createRequestBody :: "ServerTokenRequestParameters \<Rightarrow> string"
  createRequestHeaders :: "ServerTokenRequestParameters \<Rightarrow> (string \<times> string) list"
  createTokenResponse ::
    "ServerAuthorizationTokenResponse \<Rightarrow> string option \<Rightarrow> string option \<Rightarrow> string option \<Rightarrow>
     (string \<rightharpoonup> string) \<Rightarrow> (error + TokenResponse) \<times> (string \<rightharpoonup> string)"
  setResponseIdToken :: "TokenResponse \<Rightarrow> IdToken \<Rightarrow> TokenResponse"
  newIdToken :: "string \<Rightarrow> error + IdToken"
  buildClientInfo :: "string \<Rightarrow> error + ClientInfo"
  createAccount :: "IdToken \<Rightarrow> ClientInfo \<Rightarrow> Account"
  nowSeconds :: int
  REQUEST_PARAMS :: string
  PERSISTENT_ID_TOKEN :: string
  PERSISTENT_CLIENT_INFO :: string

subsection \<open>Small helpers\<close>

text \<open>JavaScript's truthiness of an optional string, and \<open>x || ""\<close>.\<close>

definition truthy :: "string option \<Rightarrow> bool" where
  "truthy x = (case x of None \<Rightarrow> False | Some s \<Rightarrow> s \<noteq> [])"

definition or_empty :: "string option \<Rightarrow> string" where
  "or_empty x = (case x of None \<Rightarrow> [] | Some s \<Rightarrow> s)"

text \<open>
  Modelled from the spec: \<open>StringUtils.isEmpty\<close> is not among the sources. The spec
  reads it as "absent or empty" (section 4.5: "present and non-empty").
\<close>

definition isEmpty :: "string option \<Rightarrow> bool" where
  "isEmpty x = (case x of None \<Rightarrow> True | Some s \<Rightarrow> s = [])"

text \<open>
  Modelled from the spec: \<open>RequestValidator.validateRedirectUri\<close> is not among the
  sources. Section 4.1: the request builder "fails with ConfigurationError if no redirect
  URI is configured"; the call site's comment: "validate the redirectUri (to be a non null
  value)". \<open>Some\<close> is the error thrown.
\<close>

definition validateRedirectUri :: "string \<Rightarrow> error option" where
  "validateRedirectUri uri = (if isEmpty (Some uri) then Some RedirectUriEmptyError else None)"

text \<open>
  Modelled from the spec: \<open>ResponseHandler.validateServerAuthorizationTokenResponse\<close> is
  not among the sources. Section 4.3: it "fails with a structured ServerError (carrying
  server error code/description) whenever the response body contains an error field"; the
  call site's comment: "This function throws a server error if an error is returned by the
  server." \<open>Some\<close> is the error thrown.
\<close>

definition validateServerAuthorizationTokenResponse ::
  "ServerAuthorizationTokenResponse \<Rightarrow> error option" where
  "validateServerAuthorizationTokenResponse serverResponse =
     (case error serverResponse of
        Some errorCode \<Rightarrow> Some (ServerError errorCode (or_empty (error_description serverResponse)))
      | None \<Rightarrow> None)"

subsection \<open>The request parameter builder\<close>

text \<open>
  Modelled from the spec: \<open>RequestParameterBuilder\<close> is not among the sources. Section 6
  gives the names of the query parameters of the authorization request (\<open>client_id\<close>,
  \<open>scope\<close>, \<open>redirect_uri\<close>, \<open>response_mode\<close>, \<open>response_type=code\<close>, \<open>code_challenge\<close>,
  \<open>code_challenge_method\<close>, \<open>state\<close>, \<open>prompt\<close>, \<open>login_hint\<close>, \<open>nonce\<close>) and section 4.1
  the correlation identifier and the extra query parameters, which never override a
  reserved key. The builder is the list of the parameters added so far, and the query
  string joins them as \<open>name=value\<close> with \<open>&\<close>; the scopes are joined with spaces.
  URL-encoding of the values is left out.
\<close>

type_synonym parameters = "(string \<times> string) list"

fun join :: "string \<Rightarrow> string list \<Rightarrow> string" where
  "join sep [] = []"
| "join sep [x] = x"
| "join sep (x # y # ys) = x @ sep @ join sep (y # ys)"

definition addParameter :: "string \<Rightarrow> string \<Rightarrow> parameters \<Rightarrow> parameters" where
  "addParameter name v ps = ps @ [(name, v)]"

definition addExtraQueryParameters :: "(string \<times> string) list option \<Rightarrow> parameters \<Rightarrow> parameters" where
  "addExtraQueryParameters eqp ps =
     (case eqp of
        None \<Rightarrow> ps
      | Some extra \<Rightarrow> ps @ filter (\<lambda>(name, v). name \<notin> fst ` set ps) extra)"

definition createQueryString :: "parameters \<Rightarrow> string" where
  "createQueryString ps = join ''&'' (map (\<lambda>(name, v). name @ ''='' @ v) ps)"

subsection \<open>Getters\<close>

text \<open>
  \<open>getRedirectUri\<close>: a configured function is called and its value returned as it is;
  a configured string is returned when it is not empty; anything else throws.
\<close>

definition getRedirectUri :: "SPAClient \<Rightarrow> error + string" where
  "getRedirectUri c =
     (case AuthOptions.redirectUri (authOptions (config c)) of
        RedirectFunction v \<Rightarrow> Inr v
      | RedirectString s \<Rightarrow>
          (if s \<noteq> [] \<and> \<not> isEmpty (Some s) then Inr s else Inl RedirectUriEmptyError)
      | RedirectAbsent \<Rightarrow> Inl RedirectUriEmptyError)"

text \<open>
  \<open>getAccount\<close>: the account of the instance if there is one; otherwise the account
  decoded from the persisted id token and client info, which is then kept on the instance;
  otherwise null (\<open>None\<close>).
\<close>

definition getAccount :: "'ss env \<Rightarrow> SPAClient \<Rightarrow> (error + Account option) \<times> SPAClient" where
  "getAccount env c =
     (case SPAClient.account c of
        Some a \<Rightarrow> (Inr (Some a), c)
      | None \<Rightarrow>
          let rawIdToken = cacheStorage c (PERSISTENT_ID_TOKEN env);
              rawClientInfo = cacheStorage c (PERSISTENT_CLIENT_INFO env)
          in
            if \<not> isEmpty rawIdToken \<and> \<not> isEmpty rawClientInfo then
              (case newIdToken env (or_empty rawIdToken) of
                 Inl e \<Rightarrow> (Inl e, c)
               | Inr idToken' \<Rightarrow>
                   (case buildClientInfo env (or_empty rawClientInfo) of
                      Inl e \<Rightarrow> (Inl e, c)
                    | Inr clientInfo \<Rightarrow>
                        let a = createAccount env idToken' clientInfo
                        in (Inr (Some a), c\<lparr>SPAClient.account := Some a\<rparr>)))
            else (Inr None, c))"

subsection \<open>Authorities and endpoint discovery\<close>

text \<open>
  \<open>x ? AuthorityFactory.createInstance(x, this.networkClient) : this.defaultAuthority\<close>:
  the authority and whether it is the default one of the instance (discovery changes the
  object it is called on).
\<close>

definition selectAuthority :: "'ss env \<Rightarrow> string option \<Rightarrow> SPAClient \<Rightarrow> Authority \<times> bool" where
  "selectAuthority env authorityUri c =
     (if truthy authorityUri then (createInstance env (or_empty authorityUri), False)
      else (defaultAuthority c, True))"

text \<open>
  \<open>try { await a.resolveEndpointsAsync(); } catch (e) { throw
  ClientAuthError.createEndpointDiscoveryIncompleteError(e); }\<close>
\<close>

definition resolveEndpoints ::
  "'ss env \<Rightarrow> Authority \<times> bool \<Rightarrow> SPAClient \<Rightarrow> (error + Authority) \<times> SPAClient" where
  "resolveEndpoints env sel c =
     (let c1 = c\<lparr>calls := calls c @ [ResolveEndpointsCall (canonicalAuthority (fst sel))]\<rparr> in
      case resolveEndpointsAsync env (fst sel) of
        Inl e \<Rightarrow> (Inl (EndpointDiscoveryIncompleteError e), c1)
      | Inr a \<Rightarrow> (Inr a, if snd sel then c1\<lparr>defaultAuthority := a\<rparr> else c1))"

text \<open>The same under \<open>if (!a.discoveryComplete())\<close>.\<close>

definition resolveEndpointsUnlessComplete ::
  "'ss env \<Rightarrow> Authority \<times> bool \<Rightarrow> SPAClient \<Rightarrow> (error + Authority) \<times> SPAClient" where
  "resolveEndpointsUnlessComplete env sel c =
     (if \<not> discoveryComplete (fst sel) then resolveEndpoints env sel c else (Inr (fst sel), c))"

subsection \<open>Building the authorization URL\<close>

text \<open>
  \<open>createUrl\<close>, statement by statement, in two parts. The second part is everything
  after the redirect URI was validated and added: given the parameters built so far and
  the number \<open>n0\<close> of values already drawn from the crypto object, it yields the query
  string, or the error of the prompt validation, and the number of values drawn then. The
  crypto object is asked, in this order, for the correlation id (unless the request has
  one), the PKCE codes, the guid of the state and the nonce.
\<close>

definition createUrl_parameters ::
  "'ss env \<Rightarrow> Request option \<Rightarrow> parameters \<Rightarrow> nat \<Rightarrow> (error + string) \<times> nat" where
  "createUrl_parameters env request pb3 n0 =
     (let given = (case request of None \<Rightarrow> None | Some r \<Rightarrow> correlationId r);
          correlation = (if truthy given then or_empty given else createNewGuid env n0);
          n1 = (if truthy given then n0 else Suc n0);
          pb4 = addParameter ''client-request-id'' correlation pb3;
          pb5 = addParameter ''response_mode'' ''fragment'' pb4;
          pb6 = addParameter ''response_type'' ''code'' pb5;
          generatedPkce = generatePkceCodes env n1;
          n2 = Suc n1;
          pb7 = addParameter ''code_challenge_method'' ''S256''
                  (addParameter ''code_challenge'' (challenge generatedPkce) pb6);
          requestState = setRequestState env
            (case request of None \<Rightarrow> None | Some r \<Rightarrow> Request.userRequestState r)
            (createNewGuid env n2);
          n3 = Suc n2;
          pb8 = addParameter ''state'' requestState pb7
      in
        (case (case request of
                 None \<Rightarrow> Inr pb8
               | Some r \<Rightarrow>
                   (if truthy (prompt r)
                    then (case validatePrompt env (or_empty (prompt r)) of
                            Some e \<Rightarrow> Inl e
                          | None \<Rightarrow> Inr (addParameter ''prompt'' (or_empty (prompt r)) pb8))
                    else Inr pb8)) of
           Inl e \<Rightarrow> (Inl e, n3)
         | Inr pb9 \<Rightarrow>
             let pb10 =
                   (case request of
                      None \<Rightarrow> pb9
                    | Some r \<Rightarrow>
                        addParameter ''login_hint''
                          (if truthy (map_option userName (Request.account r))
                           then or_empty (map_option userName (Request.account r))
                           else if truthy (loginHint r) then or_empty (loginHint r)
                           else []) pb9);
                 nonce = createNewGuid env n3;
                 n4 = Suc n3;
                 pb11 = addParameter ''nonce'' nonce pb10;
                 pb12 = addExtraQueryParameters
                   (case request of None \<Rightarrow> None | Some r \<Rightarrow> extraQueryParameters r) pb11
             in (Inr (createQueryString pb12), n4)))"

text \<open>
  The first part: the authority and its endpoint discovery (always attempted here), the
  client id, the scope set (the constructor, and on a login call \<open>appendScopes\<close>, either of
  which can throw), and the redirect URI. Nothing in \<open>createUrl\<close> is given the store:
  neither the parameter builder, nor the scope set, nor the crypto object, nor
  \<open>ProtocolUtils\<close>.
\<close>

definition createUrl ::
  "'ss env \<Rightarrow> Request option \<Rightarrow> bool \<Rightarrow> SPAClient \<Rightarrow> (error + string) \<times> SPAClient" where
  "createUrl env request isLoginCall c =
     (case resolveEndpoints env
             (selectAuthority env (case request of None \<Rightarrow> None | Some r \<Rightarrow> Request.authority r) c) c of
        (Inl e, c1) \<Rightarrow> (Inl e, c1)
      | (Inr acquireTokenAuthority, c1) \<Rightarrow>
          let appClientId = AuthOptions.clientId (authOptions (config c1));
              pb1 = addParameter ''client_id'' appClientId []
          in
          (case newScopeSet env
                  (case request of None \<Rightarrow> []
                   | Some r \<Rightarrow> (case Request.scopes r of None \<Rightarrow> [] | Some ss \<Rightarrow> ss))
                  appClientId (\<not> isLoginCall) of
             Inl e \<Rightarrow> (Inl e, c1)
           | Inr scopeset0 \<Rightarrow>
               (case (if isLoginCall
                      then appendScopes env scopeset0
                             (case request of None \<Rightarrow> None | Some r \<Rightarrow> extraScopesToConsent r)
                      else Inr scopeset0) of
                  Inl e \<Rightarrow> (Inl e, c1)
                | Inr scopeset \<Rightarrow>
                    let pb2 = addParameter ''scope'' (join '' '' (asArray env scopeset)) pb1 in
                    (case getRedirectUri c1 of
                       Inl e \<Rightarrow> (Inl e, c1)
                     | Inr uri \<Rightarrow>
                         (case validateRedirectUri uri of
                            Some e \<Rightarrow> (Inl e, c1)
                          | None \<Rightarrow>
                              (case createUrl_parameters env request
                                      (addParameter ''redirect_uri'' uri pb2) (entropy c1) of
                                 (result, n) \<Rightarrow> (result, c1\<lparr>entropy := n\<rparr>)))))))"

definition createLoginUrl :: "'ss env \<Rightarrow> Request option \<Rightarrow> SPAClient \<Rightarrow> (error + string) \<times> SPAClient" where
  "createLoginUrl env request c = createUrl env request True c"

definition createAcquireTokenUrl ::
  "'ss env \<Rightarrow> Request option \<Rightarrow> SPAClient \<Rightarrow> (error + string) \<times> SPAClient" where
  "createAcquireTokenUrl env request c = createUrl env request False c"

subsection \<open>The token endpoint\<close>

text \<open>
  \<open>getTokenResponse\<close>: the POST, the validation of the answer, the token response (whose
  construction writes the cache), and the current account set from it.
\<close>

definition getTokenResponse ::
  "'ss env \<Rightarrow> string \<Rightarrow> ServerTokenRequestParameters \<Rightarrow> Request \<Rightarrow> CodeResponse option \<Rightarrow>
   SPAClient \<Rightarrow> (error + TokenResponse) \<times> SPAClient" where
  "getTokenResponse env endpoint tokenReqParams tokenRequest codeResponse c =
     (let c1 = c\<lparr>calls := calls c @ [SendPostCall endpoint (createRequestBody env tokenReqParams)]\<rparr> in
      case sendPostRequestAsync env endpoint (createRequestBody env tokenReqParams)
             (createRequestHeaders env tokenReqParams) of
        Inl e \<Rightarrow> (Inl e, c1)
      | Inr acquiredTokenResponse \<Rightarrow>
          (case validateServerAuthorizationTokenResponse acquiredTokenResponse of
             Some e \<Rightarrow> (Inl e, c1)
           | None \<Rightarrow>
               (case createTokenResponse env acquiredTokenResponse
                       (Request.authority tokenRequest) (Request.resource tokenRequest)
                       (case codeResponse of None \<Rightarrow> None
                        | Some cr \<Rightarrow> CodeResponse.userRequestState cr)
                       (cacheStorage c1) of
                  (Inl e, store) \<Rightarrow> (Inl e, c1\<lparr>cacheStorage := store\<rparr>)
                | (Inr tokenResponse, store) \<Rightarrow>
                    (Inr tokenResponse,
                     c1\<lparr>cacheStorage := store,
                        SPAClient.account := TokenResponse.account tokenResponse\<rparr>))))"

text \<open>
  \<open>renewToken\<close>: \<open>this.getRedirectUri()\<close> is an argument of the constructor of the
  request parameters, so it is evaluated, and can throw, before the request is sent.
\<close>

definition renewToken ::
  "'ss env \<Rightarrow> Request \<Rightarrow> string \<Rightarrow> string \<Rightarrow> SPAClient \<Rightarrow> (error + TokenResponse) \<times> SPAClient" where
  "renewToken env refreshTokenRequest endpoint refreshToken' c =
     (case getRedirectUri c of
        Inl e \<Rightarrow> (Inl e, c)
      | Inr uri \<Rightarrow>
          getTokenResponse env endpoint
            \<lparr>clientIdParam = AuthOptions.clientId (authOptions (config c)),
             tokenRequestParam = refreshTokenRequest, codeResponseParam = None,
             redirectUriParam = uri, refreshTokenParam = Some refreshToken'\<rparr>
            refreshTokenRequest None c)"

subsection \<open>Exchanging an authorization code\<close>

text \<open>
  \<open>getCachedRequest\<close>: whatever the decoding throws is wrapped; the cached entry is removed
  only after it was decoded.
\<close>

definition getCachedRequest ::
  "'ss env \<Rightarrow> string option \<Rightarrow> SPAClient \<Rightarrow> (error + Request) \<times> SPAClient" where
  "getCachedRequest env requestState c =
     (case base64Decode env (cacheStorage c (REQUEST_PARAMS env)) of
        Inl err \<Rightarrow> (Inl (TokenRequestCacheError err), c)
      | Inr decoded \<Rightarrow>
          (case JSON_parse env decoded of
             Inl err \<Rightarrow> (Inl (TokenRequestCacheError err), c)
           | Inr parsedRequest \<Rightarrow>
               let c1 = c\<lparr>cacheStorage := (cacheStorage c)(REQUEST_PARAMS env := None)\<rparr> in
               if isEmpty (Request.authority parsedRequest) then
                 (Inr (parsedRequest\<lparr>Request.authority :=
                         cacheStorage c1 (generateAuthorityKey env requestState)\<rparr>), c1)
               else (Inr parsedRequest, c1)))"

text \<open>The body of the \<open>try\<close> block of \<open>acquireToken\<close>.\<close>

definition acquireToken_try ::
  "'ss env \<Rightarrow> CodeResponse option \<Rightarrow> SPAClient \<Rightarrow> (error + TokenResponse) \<times> SPAClient" where
  "acquireToken_try env codeResponse c =
     (case codeResponse of
        None \<Rightarrow> (Inl TokenRequestCannotBeMadeError, c)
      | Some cr \<Rightarrow>
          if isEmpty (code cr) then (Inl TokenRequestCannotBeMadeError, c)
          else
            (case getCachedRequest env (CodeResponse.userRequestState cr) c of
               (Inl e, c1) \<Rightarrow> (Inl e, c1)
             | (Inr tokenRequest, c1) \<Rightarrow>
                 (case resolveEndpointsUnlessComplete env
                         (selectAuthority env (Request.authority tokenRequest) c1) c1 of
                    (Inl e, c2) \<Rightarrow> (Inl e, c2)
                  | (Inr acquireTokenAuthority, c2) \<Rightarrow>
                      (case getRedirectUri c2 of
                         Inl e \<Rightarrow> (Inl e, c2)
                       | Inr uri \<Rightarrow>
                           getTokenResponse env (tokenEndpoint acquireTokenAuthority)
                             \<lparr>clientIdParam = AuthOptions.clientId (authOptions (config c2)),
                              tokenRequestParam = tokenRequest, codeResponseParam = Some cr,
                              redirectUriParam = uri, refreshTokenParam = None\<rparr>
                             tokenRequest (Some cr) c2))))"

text \<open>
  The \<open>catch\<close> block of \<open>acquireToken\<close> and of \<open>getValidToken\<close>: the temporary cache
  items are reset, the account is set to null, and the error caught is thrown again.
\<close>

definition resetAndRethrow ::
  "'ss env \<Rightarrow> string option \<Rightarrow> error \<Rightarrow> SPAClient \<Rightarrow> (error + 'a) \<times> SPAClient" where
  "resetAndRethrow env requestState e c =
     (Inl e, c\<lparr>cacheStorage := resetTempCacheItems env requestState (cacheStorage c),
              SPAClient.account := None\<rparr>)"

text \<open>
  \<open>acquireToken\<close>: the result of \<open>getTokenResponse\<close> is awaited inside the \<open>try\<close> block
  (\<open>return await\<close>), so its rejection reaches the \<open>catch\<close> block as every other error does.
\<close>

definition acquireToken ::
  "'ss env \<Rightarrow> CodeResponse option \<Rightarrow> SPAClient \<Rightarrow> (error + TokenResponse) \<times> SPAClient" where
  "acquireToken env codeResponse c =
     (case acquireToken_try env codeResponse c of
        (Inl e, c1) \<Rightarrow>
          resetAndRethrow env
            (case codeResponse of None \<Rightarrow> None | Some cr \<Rightarrow> CodeResponse.userRequestState cr) e c1
      | (Inr tokenResponse, c1) \<Rightarrow> (Inr tokenResponse, c1))"

subsection \<open>Tokens from the cache\<close>

text \<open>
  \<open>getCachedTokens\<close>: the entries the cache manager finds for the client id, the
  authority, the resource and the home account, filtered to those whose scopes contain the
  requested ones; exactly one must remain.
\<close>

definition getCachedTokens ::
  "'ss env \<Rightarrow> 'ss \<Rightarrow> string \<Rightarrow> string option \<Rightarrow> string option \<Rightarrow> SPAClient \<Rightarrow>
   (error + AccessTokenCacheItem) \<times> SPAClient" where
  "getCachedTokens env requestScopes authorityUri resourceId homeAccountId c =
     (let appClientId = AuthOptions.clientId (authOptions (config c));
          tokenCacheItems = getAllAccessTokens env (cacheStorage c) appClientId
            authorityUri (or_empty resourceId) (or_empty homeAccountId);
          c1 = c\<lparr>calls := calls c @
                 [GetAllAccessTokensCall appClientId authorityUri (or_empty resourceId)
                    (or_empty homeAccountId)]\<rparr>
      in
        if length tokenCacheItems = 0
        then (Inl (NoTokensFoundError (printScopes env requestScopes)), c1)
        else
          let filteredCacheItems =
                filter (\<lambda>cacheItem.
                          containsScopeSet env
                            (fromString env (AccessTokenKey.scopes (key cacheItem)) appClientId True)
                            requestScopes)
                  tokenCacheItems
          in
            if length filteredCacheItems > 1
            then (Inl (MultipleMatchingTokensInCacheError (printScopes env requestScopes)), c1)
            else if length filteredCacheItems = 1 then (Inr (filteredCacheItems ! 0), c1)
            else (Inl (NoTokensFoundError (printScopes env requestScopes)), c1))"

text \<open>
  What the \<open>try\<close> block of \<open>getValidToken\<close> ends with when it does not throw:
  \<open>return tokenResponse\<close>, or \<open>return this.renewToken(request, tokenEndpoint,
  refreshToken)\<close>, the promise of a call that is not awaited there.
\<close>

datatype returned = ReturnResponse TokenResponse | ReturnRenewToken Request string string

text \<open>
  The \<open>try\<close> block of \<open>getValidToken\<close> is written in three parts, in the order of the
  source. First, up to the cache lookup: the account of the request or of
  \<open>getAccount\<close>, the requested scope set, the check that a login scope set has an account,
  and the authority with its endpoints; it yields the account, the scope set and the
  authority.
\<close>

definition getValidToken_resolve ::
  "'ss env \<Rightarrow> Request \<Rightarrow> SPAClient \<Rightarrow> (error + Account option \<times> 'ss \<times> Authority) \<times> SPAClient" where
  "getValidToken_resolve env r c =
     (case (case Request.account r of
              Some a \<Rightarrow> (Inr (Some a), c)
            | None \<Rightarrow> getAccount env c) of
        (Inl e, c1) \<Rightarrow> (Inl e, c1)
      | (Inr acct, c1) \<Rightarrow>
          (case newScopeSet env
                  (case Request.scopes r of None \<Rightarrow> [] | Some ss \<Rightarrow> ss)
                  (AuthOptions.clientId (authOptions (config c1))) True of
             Inl e \<Rightarrow> (Inl e, c1)
           | Inr requestScopes \<Rightarrow>
               if isLoginScopeSet env requestScopes \<and> acct = None
               then (Inl UserLoginRequiredError, c1)
               else
                 (case resolveEndpointsUnlessComplete env
                         (selectAuthority env (Request.authority r) c1) c1 of
                    (Inl e, c2) \<Rightarrow> (Inl e, c2)
                  | (Inr acquireTokenAuthority, c2) \<Rightarrow>
                      (Inr (acct, requestScopes, acquireTokenAuthority), c2))))"

text \<open>
  The object literal \<open>defaultTokenResponse\<close> of \<open>getValidToken\<close>: the token response made
  of a cached entry, the id token left empty.
\<close>

definition defaultTokenResponse ::
  "'ss env \<Rightarrow> string \<Rightarrow> Account option \<Rightarrow> AccessTokenCacheItem \<Rightarrow> TokenResponse" where
  "defaultTokenResponse env appClientId acct cachedTokenItem =
     \<lparr>uniqueId = [], tenantId = [],
      TokenResponse.scopes =
        asArray env (fromString env (AccessTokenKey.scopes (key cachedTokenItem)) appClientId True),
      TokenResponse.tokenType = AccessTokenValue.tokenType (value' cachedTokenItem),
      TokenResponse.idToken = [], idTokenClaims = None,
      TokenResponse.accessToken = AccessTokenValue.accessToken (value' cachedTokenItem),
      TokenResponse.refreshToken = AccessTokenValue.refreshToken (value' cachedTokenItem),
      expiresOn = newDate_of_seconds (expiresOnSec (value' cachedTokenItem)),
      TokenResponse.account = acct,
      TokenResponse.userRequestState = []\<rparr>"

text \<open>
  Last, from the cached entry found: the token response made of the entry when no refresh
  is forced and the entry's expiry is truthy and greater than the current time plus the
  renewal offset (\<open>expirationSec && expirationSec > offsetCurrentTimeSec\<close>: NaN and \<open>0\<close>
  are falsy); the renewal otherwise. The current time is a whole number of seconds
  (\<open>TimeUtils.nowSeconds\<close>), and so is the offset taken to be.
\<close>

definition getValidToken_respond ::
  "'ss env \<Rightarrow> Request \<Rightarrow> Account option \<Rightarrow> Authority \<Rightarrow> AccessTokenCacheItem \<Rightarrow> SPAClient \<Rightarrow>
   (error + returned) \<times> SPAClient" where
  "getValidToken_respond env r acct acquireTokenAuthority cachedTokenItem c =
     (let expirationSec = expiresOnSec (value' cachedTokenItem);
          offsetCurrentTimeSec = nowSeconds env
            + tokenRenewalOffsetSeconds (systemOptions (config c))
      in
        if \<not> forceRefresh r
           \<and> truthy_number expirationSec \<and> number_greater expirationSec offsetCurrentTimeSec
        then
          let response = defaultTokenResponse env
                (AuthOptions.clientId (authOptions (config c))) acct cachedTokenItem
          in
            if isEmpty (AccessTokenValue.idToken (value' cachedTokenItem))
            then (Inr (ReturnResponse response), c)
            else
              (case newIdToken env (or_empty (AccessTokenValue.idToken (value' cachedTokenItem))) of
                 Inl e \<Rightarrow> (Inl e, c)
               | Inr idToken' \<Rightarrow>
                   (Inr (ReturnResponse (setResponseIdToken env response idToken')), c))
        else
          (Inr (ReturnRenewToken
             (r\<lparr>Request.authority := Some (AccessTokenKey.authority (key cachedTokenItem))\<rparr>)
             (tokenEndpoint acquireTokenAuthority)
             (AccessTokenValue.refreshToken (value' cachedTokenItem))), c))"

text \<open>The whole block: the null check of the request, then the three parts.\<close>

definition getValidToken_try ::
  "'ss env \<Rightarrow> Request option \<Rightarrow> SPAClient \<Rightarrow> (error + returned) \<times> SPAClient" where
  "getValidToken_try env request c =
     (case request of
        None \<Rightarrow> (Inl EmptyTokenRequestError, c)
      | Some r \<Rightarrow>
          (case getValidToken_resolve env r c of
             (Inl e, c2) \<Rightarrow> (Inl e, c2)
           | (Inr (acct, requestScopes, acquireTokenAuthority), c2) \<Rightarrow>
               (case getCachedTokens env requestScopes
                       (canonicalAuthority acquireTokenAuthority) (Request.resource r)
                       (map_option Account.homeAccountIdentifier acct) c2 of
                  (Inl e, c3) \<Rightarrow> (Inl e, c3)
                | (Inr cachedTokenItem, c3) \<Rightarrow>
                    getValidToken_respond env r acct acquireTokenAuthority cachedTokenItem c3)))"

text \<open>
  \<open>getValidToken\<close>. An error thrown in the \<open>try\<close> block reaches the \<open>catch\<close> block. The
  renewal does not: \<open>renewToken\<close> is an async function, so the call returns a promise
  and never throws; the \<open>try\<close> block returns that promise without awaiting it, which ends
  the block; the promise returned by \<open>getValidToken\<close> then settles as the one of
  \<open>renewToken\<close> does. A rejection of the renewal therefore goes to the caller, past the
  \<open>catch\<close> block. (The source says so where it does await: "if errors are thrown
  asynchronously in return statement, they are caught by caller of this function instead".)
\<close>

definition getValidToken ::
  "'ss env \<Rightarrow> Request option \<Rightarrow> SPAClient \<Rightarrow> (error + TokenResponse) \<times> SPAClient" where
  "getValidToken env request c =
     (case getValidToken_try env request c of
        (Inl e, c1) \<Rightarrow> resetAndRethrow env None e c1
      | (Inr (ReturnResponse tokenResponse), c1) \<Rightarrow> (Inr tokenResponse, c1)
      | (Inr (ReturnRenewToken renewRequest endpoint refreshToken'), c1) \<Rightarrow>
          renewToken env renewRequest endpoint refreshToken' c1)"

section \<open>A concrete set of collaborators\<close>

text \<open>
  The closed instances below run the client with these collaborators. A scope set is the
  list of its scopes with the client id; a set is a login set when it holds the client id,
  \<open>openid\<close> or \<open>profile\<close>; no scope set is made of an empty list of required scopes,
  and undefined scopes cannot be appended. The cache manager holds the access-token
  entries \<open>items\<close>; the token endpoint gives the answer \<open>answer\<close>; the authority
  \<open>https://unreachable\<close> cannot be discovered; \<open>malformed\<close> is an id token that does not
  decode; the one request that decodes from the store is \<open>demo_stored_request\<close>.
\<close>

fun split_spaces :: "string \<Rightarrow> string list" where
  "split_spaces [] = [[]]"
| "split_spaces (ch # cs) =
     (if ch = CHR '' '' then [] # split_spaces cs
      else (case split_spaces cs of w # ws \<Rightarrow> (ch # w) # ws | [] \<Rightarrow> [[ch]]))"

definition demo_newScopeSet :: "string list \<Rightarrow> string \<Rightarrow> bool \<Rightarrow> string list \<times> string" where
  "demo_newScopeSet inputScopes appClientId scopesRequired =
     (let given = remdups (filter (\<lambda>s. s \<noteq> []) inputScopes) in
      (if scopesRequired then given else remdups (given @ [appClientId]), appClientId))"

definition demo_items_matching ::
  "AccessTokenCacheItem list \<Rightarrow> string \<Rightarrow> string \<Rightarrow> string \<Rightarrow> string \<Rightarrow> AccessTokenCacheItem list" where
  "demo_items_matching items cid auth res home =
     filter (\<lambda>i. AccessTokenKey.clientId (key i) = cid \<and> AccessTokenKey.authority (key i) = auth
                 \<and> AccessTokenKey.resource (key i) = res
                 \<and> AccessTokenKey.homeAccountIdentifier (key i) = home) items"

definition demo_createTokenResponse ::
  "ServerAuthorizationTokenResponse \<Rightarrow> string option \<Rightarrow> string option \<Rightarrow> string option \<Rightarrow>
   (string \<rightharpoonup> string) \<Rightarrow> (error + TokenResponse) \<times> (string \<rightharpoonup> string)" where
  "demo_createTokenResponse body auth res st store =
     (Inr \<lparr>uniqueId = [], tenantId = [],
           TokenResponse.scopes = split_spaces (or_empty (scope body)),
           TokenResponse.tokenType = or_empty (token_type body),
           TokenResponse.idToken = or_empty (id_token body), idTokenClaims = None,
           TokenResponse.accessToken = or_empty (access_token body),
           TokenResponse.refreshToken = or_empty (refresh_token body),
           expiresOn = (case expires_in body of None \<Rightarrow> None | Some n \<Rightarrow> Some ((1000 + n) * 1000)),
           TokenResponse.account = None,
           TokenResponse.userRequestState = or_empty st\<rparr>,
      store(''accesstoken'' \<mapsto> or_empty (access_token body)))"

text \<open>A request for the given scopes with the given account, and nothing else.\<close>

definition demo_request :: "string list \<Rightarrow> Account option \<Rightarrow> bool \<Rightarrow> Request" where
  "demo_request wanted who force =
     \<lparr>Request.scopes = Some wanted, Request.authority = None, Request.resource = None,
      Request.account = who, forceRefresh = force, extraScopesToConsent = None, prompt = None,
      loginHint = None, correlationId = None, Request.userRequestState = None,
      extraQueryParameters = None\<rparr>"

definition demo_stored_request :: Request where
  "demo_stored_request = (demo_request [''read''] None False)\<lparr>extraScopesToConsent := Some []\<rparr>"

definition demo_env ::
  "AccessTokenCacheItem list \<Rightarrow> error + ServerAuthorizationTokenResponse \<Rightarrow> (string list \<times> string) env" where
  "demo_env items answer =
     \<lparr>createInstance = (\<lambda>uri. \<lparr>canonicalAuthority = uri, tokenEndpoint = uri @ ''/token'',
                                discoveryComplete = False\<rparr>),
      resolveEndpointsAsync = (\<lambda>a. if canonicalAuthority a = ''https://unreachable''
                                    then Inl (CollaboratorError ''network'')
                                    else Inr (a\<lparr>discoveryComplete := True\<rparr>)),
      newScopeSet = (\<lambda>inputScopes appClientId scopesRequired.
                       if scopesRequired \<and> filter (\<lambda>s. s \<noteq> []) inputScopes = []
                       then Inl (CollaboratorError ''empty_input_scopes_error'')
                       else Inr (demo_newScopeSet inputScopes appClientId scopesRequired)),
      fromString = (\<lambda>s. demo_newScopeSet (split_spaces s)),
      appendScopes = (\<lambda>ss extra. case extra of
                                    None \<Rightarrow> Inl (CollaboratorError ''cannot_append_scopeset'')
                                  | Some xs \<Rightarrow> Inr (remdups (fst ss @ xs), snd ss)),
      isLoginScopeSet = (\<lambda>ss. snd ss \<in> set (fst ss) \<or> ''openid'' \<in> set (fst ss)
                                \<or> ''profile'' \<in> set (fst ss)),
      containsScopeSet = (\<lambda>ss other. set (fst other) \<subseteq> set (fst ss)),
      printScopes = (\<lambda>ss. join '' '' (fst ss)),
      asArray = fst,
      createNewGuid = (\<lambda>n. ''guid-'' @ string_of_nat n),
      generatePkceCodes = (\<lambda>n. \<lparr>verifier = ''verifier-'' @ string_of_nat n,
                                 challenge = ''challenge-'' @ string_of_nat n\<rparr>),
      base64Decode = (\<lambda>x. case x of None \<Rightarrow> Inl (CollaboratorError ''base64'') | Some s \<Rightarrow> Inr s),
      JSON_parse = (\<lambda>s. if s = ''stored-request'' then Inr demo_stored_request
                         else Inl (CollaboratorError ''json'')),
      setRequestState = (\<lambda>userState guid. or_empty userState @ ''|'' @ guid),
      validatePrompt = (\<lambda>p. if p \<in> {''login'', ''select_account'', ''consent'', ''none''}
                             then None else Some (CollaboratorError ''prompt'')),
      getAllAccessTokens = (\<lambda>store. demo_items_matching items),
      resetTempCacheItems = (\<lambda>st store. store(''request.params'' := None, ''request.state'' := None)),
      generateAuthorityKey = (\<lambda>st. ''authority|'' @ or_empty st),
      sendPostRequestAsync = (\<lambda>endpoint body headers. answer),
      createRequestBody = (\<lambda>p. case refreshTokenParam p of
                                  Some t \<Rightarrow> ''grant_type=refresh_token&refresh_token='' @ t
                                | None \<Rightarrow> ''grant_type=authorization_code&code=''
                                    @ or_empty (case codeResponseParam p of None \<Rightarrow> None | Some cr \<Rightarrow> code cr)),
      createRequestHeaders = (\<lambda>p. []),
      createTokenResponse = demo_createTokenResponse,
      setResponseIdToken = (\<lambda>r t. r\<lparr>TokenResponse.idToken := rawIdToken t,
                                      idTokenClaims := Some (claims t)\<rparr>),
      newIdToken = (\<lambda>s. if s = ''malformed'' then Inl (CollaboratorError ''id token'')
                         else Inr \<lparr>rawIdToken = s, claims = []\<rparr>),
      buildClientInfo = (\<lambda>s. Inr \<lparr>uid = s, utid = s\<rparr>),
      createAccount = (\<lambda>t ci. \<lparr>Account.homeAccountIdentifier = uid ci @ ''.'' @ utid ci,
                                userName = rawIdToken t\<rparr>),
      nowSeconds = 1000,
      REQUEST_PARAMS = ''request.params'',
      PERSISTENT_ID_TOKEN = ''idtoken'',
      PERSISTENT_CLIENT_INFO = ''client.info''\<rparr>"

text \<open>
  A client of the application \<open>app-id\<close> with a renewal offset of 300 seconds, its default
  authority already discovered, nobody signed in and an empty store.
\<close>

definition demo_client :: "redirect_uri \<Rightarrow> SPAClient" where
  "demo_client uri =
     \<lparr>config = \<lparr>authOptions = \<lparr>AuthOptions.clientId = ''app-id'', AuthOptions.redirectUri = uri\<rparr>,
                 systemOptions = \<lparr>tokenRenewalOffsetSeconds = 300\<rparr>\<rparr>,
      defaultAuthority = \<lparr>canonicalAuthority = ''https://login/common'',
                          tokenEndpoint = ''https://login/common/token'',
                          discoveryComplete = True\<rparr>,
      SPAClient.account = None,
      cacheStorage = Map.empty,
      entropy = 0,
      calls = []\<rparr>"

definition demo_alice :: Account where
  "demo_alice = \<lparr>Account.homeAccountIdentifier = ''alice.home'', userName = ''alice''\<rparr>"

text \<open>
  A cached access token of \<open>demo_alice\<close> for the scope \<open>read\<close> that expires at the given
  second (\<open>None\<close>: an expiry that is not a number), with the given refresh token and id
  token.
\<close>

definition demo_item :: "int option \<Rightarrow> string \<Rightarrow> string option \<Rightarrow> AccessTokenCacheItem" where
  "demo_item expiry refresh idt =
     \<lparr>key = \<lparr>AccessTokenKey.authority = ''https://login/common'', AccessTokenKey.clientId = ''app-id'',
              AccessTokenKey.scopes = ''read'', AccessTokenKey.resource = [],
              AccessTokenKey.homeAccountIdentifier = ''alice.home''\<rparr>,
      value' = \<lparr>AccessTokenValue.accessToken = ''cached-access-token'', AccessTokenValue.idToken = idt,
                 AccessTokenValue.refreshToken = refresh, AccessTokenValue.tokenType = ''Bearer'',
                 expiresOnSec = (case expiry of None \<Rightarrow> NaN | Some n \<Rightarrow> Finite (of_int n))\<rparr>\<rparr>"

text \<open>Two answers of the token endpoint: an error, and fresh tokens.\<close>

definition demo_error_answer :: ServerAuthorizationTokenResponse where
  "demo_error_answer =
     \<lparr>error = Some ''invalid_grant'', error_description = Some ''refresh token expired'',
      access_token = None, refresh_token = None, id_token = None, expires_in = None,
      token_type = None, scope = None, client_info = None\<rparr>"

definition demo_token_answer :: ServerAuthorizationTokenResponse where
  "demo_token_answer =
     \<lparr>error = None, error_description = None,
      access_token = Some ''new-access-token'', refresh_token = Some ''new-refresh-token'',
      id_token = None, expires_in = Some 3600, token_type = Some ''Bearer'',
      scope = Some ''read'', client_info = None\<rparr>"

section \<open>Properties of the node cache storage\<close>

lemma removeItem_not_in_memory: "removeItem gct k type False s = (False, s)"
  by (simp add: removeItem_def)

lemma fold_removeItem_not_in_memory:
  "fold (\<lambda>internalKey s2. snd (removeItem gct internalKey None False s2)) ks s = s"
  by (induction ks) (simp_all add: removeItem_not_in_memory)

lemma fold_sections_unchanged:
  "fold (\<lambda>name s1.
           fold (\<lambda>internalKey s2. snd (removeItem gct internalKey None False s2))
             (object_keys_string name) s1) secs s = s"
  by (induction secs) (simp_all add: fold_removeItem_not_in_memory)

lemma clear_eq_emitChange: "clear gct True s = emitChange s"
  by (simp add: clear_def fold_sections_unchanged)

text \<open>
  C9. \<open>clear\<close> with \<open>inMemory = true\<close> removes nothing: whatever \<open>getItem(key, type, true)\<close>
  returned before the call, for any key and any type, it returns after the call; the
  cache object itself is the same.
\<close>

theorem clear_in_memory_keeps_every_entry:
  "getItem gct k type True (clear gct True s) = getItem gct k type True s
   \<and> inMemoryCache (clear gct True s) = inMemoryCache s"
  by (simp add: clear_eq_emitChange emitChange_def getItem_def getCache_def)

text \<open>
  C10. \<open>containsKey\<close> answers true exactly for the non-empty keys, whatever the storage
  holds: two storages give the same answer.
\<close>

theorem containsKey_iff_key_nonempty:
  "containsKey s k = (k \<noteq> []) \<and> containsKey s k = containsKey s' k"
  by (simp add: containsKey_def)

section \<open>Properties of the client\<close>

lemmas demo_defs = demo_env_def demo_client_def demo_item_def demo_request_def demo_alice_def
  demo_newScopeSet_def demo_items_matching_def demo_createTokenResponse_def
  demo_error_answer_def demo_token_answer_def demo_stored_request_def

lemmas client_defs = getValidToken_def getValidToken_try_def getValidToken_resolve_def
  getValidToken_respond_def getCachedTokens_def getAccount_def renewToken_def getTokenResponse_def
  getRedirectUri_def resolveEndpointsUnlessComplete_def resolveEndpoints_def selectAuthority_def
  resetAndRethrow_def defaultTokenResponse_def validateServerAuthorizationTokenResponse_def
  truthy_def or_empty_def isEmpty_def Let_def

subsection \<open>The current account\<close>

lemma getAccount_null: "getAccount env c = (Inr None, c1) \<Longrightarrow> c1 = c"
  by (auto simp add: getAccount_def Let_def split: option.splits sum.splits if_splits)

lemma getAccount_calls: "calls (snd (getAccount env c)) = calls c"
  by (simp add: getAccount_def Let_def split: option.splits sum.splits)

text \<open>
  C8. When the instance holds no account and the persisted id token or the persisted
  client info is absent or empty, \<open>getAccount\<close> returns null: it does not throw
  (the result is \<open>Inr\<close>), and the instance is left as it was.
\<close>

theorem getAccount_absent_when_not_signed_in:
  assumes "SPAClient.account c = None"
    and "isEmpty (cacheStorage c (PERSISTENT_ID_TOKEN env))
         \<or> isEmpty (cacheStorage c (PERSISTENT_CLIENT_INFO env))"
  shows "getAccount env c = (Inr None, c)"
  using assms by (auto simp add: getAccount_def Let_def)

text \<open>C8 at a client with nobody signed in and an empty store.\<close>

theorem getAccount_absent_witness:
  "SPAClient.account (demo_client RedirectAbsent) = None
   \<and> isEmpty (cacheStorage (demo_client RedirectAbsent)
                (PERSISTENT_ID_TOKEN (demo_env [] (Inr demo_token_answer))))
   \<and> getAccount (demo_env [] (Inr demo_token_answer)) (demo_client RedirectAbsent)
       = (Inr None, demo_client RedirectAbsent)"
proof -
  have a: "SPAClient.account (demo_client RedirectAbsent) = None"
    by (simp add: demo_client_def)
  have b: "isEmpty (cacheStorage (demo_client RedirectAbsent)
                     (PERSISTENT_ID_TOKEN (demo_env [] (Inr demo_token_answer))))"
    by (simp add: demo_client_def isEmpty_def)
  from getAccount_absent_when_not_signed_in [OF a disjI1 [OF b]] a b show ?thesis by simp
qed

subsection \<open>An error answer of the token endpoint\<close>

text \<open>
  C3. When the body of the token endpoint's answer has an error field,
  \<open>getTokenResponse\<close> (the exchange of both paths, the authorization code and the refresh
  token) fails with the \<open>ServerError\<close> of the server's error code and description, and the
  client is as before the call but for the POST recorded: the store and the current account
  are untouched. (The callers \<open>acquireToken\<close> and \<open>getValidToken\<close> are the subject of C4.)
\<close>

theorem getTokenResponse_server_error:
  assumes "sendPostRequestAsync env endpoint (createRequestBody env p) (createRequestHeaders env p)
             = Inr answer"
    and "error answer = Some errorCode"
  shows "getTokenResponse env endpoint p tokenRequest codeResponse c
           = (Inl (ServerError errorCode (or_empty (error_description answer))),
              c\<lparr>calls := calls c @ [SendPostCall endpoint (createRequestBody env p)]\<rparr>)
         \<and> cacheStorage (snd (getTokenResponse env endpoint p tokenRequest codeResponse c))
             = cacheStorage c
         \<and> SPAClient.account (snd (getTokenResponse env endpoint p tokenRequest codeResponse c))
             = SPAClient.account c"
  using assms
  by (simp add: getTokenResponse_def validateServerAuthorizationTokenResponse_def)

text \<open>C3 at the answer \<open>invalid_grant\<close> to a refresh request of a signed-in client.\<close>

theorem getTokenResponse_server_error_witness:
  "error demo_error_answer = Some ''invalid_grant''
   \<and> getTokenResponse (demo_env [] (Inr demo_error_answer)) ''https://login/common/token''
       \<lparr>clientIdParam = ''app-id'', tokenRequestParam = demo_request [''read''] None False,
        codeResponseParam = None, redirectUriParam = ''https://app/redirect'',
        refreshTokenParam = Some ''cached-refresh-token''\<rparr>
       (demo_request [''read''] None False) None
       ((demo_client (RedirectString ''https://app/redirect''))\<lparr>SPAClient.account := Some demo_alice\<rparr>)
     = (Inl (ServerError ''invalid_grant'' ''refresh token expired''),
        (demo_client (RedirectString ''https://app/redirect''))
          \<lparr>SPAClient.account := Some demo_alice,
           calls := [SendPostCall ''https://login/common/token''
                      ''grant_type=refresh_token&refresh_token=cached-refresh-token'']\<rparr>)"
proof -
  let ?e = "demo_env [] (Inr demo_error_answer)"
  let ?p = "\<lparr>clientIdParam = ''app-id'', tokenRequestParam = demo_request [''read''] None False,
        codeResponseParam = None, redirectUriParam = ''https://app/redirect'',
        refreshTokenParam = Some ''cached-refresh-token''\<rparr>"
  have post: "sendPostRequestAsync ?e ''https://login/common/token'' (createRequestBody ?e ?p)
                (createRequestHeaders ?e ?p) = Inr demo_error_answer"
    by (simp add: demo_env_def)
  have err: "error demo_error_answer = Some ''invalid_grant''"
    by (simp add: demo_error_answer_def)
  from getTokenResponse_server_error [OF post err] err show ?thesis
    by (simp add: demo_defs or_empty_def)
qed

subsection \<open>Login scopes without an account\<close>

text \<open>
  C7. When the requested scopes form a login scope set and no account is known (the
  request has none and \<open>getAccount\<close> returns null), \<open>getValidToken\<close> fails with
  \<open>UserLoginRequiredError\<close>, and no call was made: no endpoint discovery, no POST, no
  query for the cached access tokens. The \<open>catch\<close> block has run.
\<close>

theorem getValidToken_login_scopes_without_account:
  assumes "Request.account r = None"
    and "getAccount env c = (Inr None, c1)"
    and "newScopeSet env (case Request.scopes r of None \<Rightarrow> [] | Some ss \<Rightarrow> ss)
           (AuthOptions.clientId (authOptions (config c))) True = Inr requestScopes"
    and "isLoginScopeSet env requestScopes"
  shows "getValidToken env (Some r) c
           = (Inl UserLoginRequiredError,
              c\<lparr>cacheStorage := resetTempCacheItems env None (cacheStorage c),
                SPAClient.account := None\<rparr>)
         \<and> calls (snd (getValidToken env (Some r) c)) = calls c"
proof -
  from assms(2) have c1: "c1 = c" by (rule getAccount_null)
  with assms have "getValidToken_resolve env r c = (Inl UserLoginRequiredError, c)"
    by (simp add: getValidToken_resolve_def Let_def)
  then show ?thesis
    by (simp add: getValidToken_def getValidToken_try_def resetAndRethrow_def)
qed

text \<open>C7 at a request for \<open>openid\<close> to a client with nobody signed in.\<close>

theorem getValidToken_login_scopes_witness:
  "Request.account (demo_request [''openid''] None False) = None
   \<and> getAccount (demo_env [] (Inr demo_token_answer)) (demo_client RedirectAbsent)
       = (Inr None, demo_client RedirectAbsent)
   \<and> getValidToken (demo_env [] (Inr demo_token_answer)) (Some (demo_request [''openid''] None False))
       (demo_client RedirectAbsent)
     = (Inl UserLoginRequiredError, demo_client RedirectAbsent)"
proof -
  let ?e = "demo_env [] (Inr demo_token_answer)"
  let ?c = "demo_client RedirectAbsent"
  let ?r = "demo_request [''openid''] None False"
  have a: "Request.account ?r = None" by (simp add: demo_defs)
  have b: "getAccount ?e ?c = (Inr None, ?c)" by (simp add: demo_defs client_defs)
  have s: "newScopeSet ?e (case Request.scopes ?r of None \<Rightarrow> [] | Some ss \<Rightarrow> ss)
              (AuthOptions.clientId (authOptions (config ?c))) True = Inr ([''openid''], ''app-id'')"
    by (simp add: demo_defs)
  have l: "isLoginScopeSet ?e ([''openid''], ''app-id'')"
    by (simp add: demo_defs)
  from getValidToken_login_scopes_without_account [OF a b s l] a b show ?thesis
    by (simp add: demo_defs)
qed

subsection \<open>The cache lookup\<close>

lemma getValidToken_lookup_failed:
  assumes "getValidToken_resolve env r c = (Inr (acct, requestScopes, a), c2)"
    and "getCachedTokens env requestScopes (canonicalAuthority a) (Request.resource r)
           (map_option Account.homeAccountIdentifier acct) c2 = (Inl e, c3)"
  shows "getValidToken env (Some r) c = resetAndRethrow env None e c3"
  using assms by (simp add: getValidToken_def getValidToken_try_def)

lemma getValidToken_lookup_found:
  assumes "getValidToken_resolve env r c = (Inr (acct, requestScopes, a), c2)"
    and "getCachedTokens env requestScopes (canonicalAuthority a) (Request.resource r)
           (map_option Account.homeAccountIdentifier acct) c2 = (Inr item, c3)"
  shows "getValidToken_try env (Some r) c = getValidToken_respond env r acct a item c3"
  using assms by (simp add: getValidToken_try_def)

text \<open>
  C2. Let a \<open>getValidToken\<close> request reach the cache lookup, and let \<open>remaining\<close> be the
  entries the cache manager finds for the client id, the authority, the resource and the
  home account, filtered to those whose scopes contain the requested scope set. If none
  remains the call fails with \<open>NoTokensFoundError\<close>; if more than one remains it fails with
  \<open>MultipleMatchingTokensInCacheError\<close>; and the lookup yields an entry only when that entry
  is the single one remaining.
\<close>

theorem getValidToken_zero_or_many_matches:
  assumes "getValidToken_resolve env r c = (Inr (acct, requestScopes, a), c2)"
    and "remaining =
           filter (\<lambda>cacheItem.
                     containsScopeSet env
                       (fromString env (AccessTokenKey.scopes (key cacheItem))
                          (AuthOptions.clientId (authOptions (config c2))) True)
                       requestScopes)
             (getAllAccessTokens env (cacheStorage c2)
                (AuthOptions.clientId (authOptions (config c2))) (canonicalAuthority a)
                (or_empty (Request.resource r))
                (or_empty (map_option Account.homeAccountIdentifier acct)))"
  shows "(remaining = [] \<longrightarrow>
            fst (getValidToken env (Some r) c) = Inl (NoTokensFoundError (printScopes env requestScopes)))
       \<and> (1 < length remaining \<longrightarrow>
            fst (getValidToken env (Some r) c)
              = Inl (MultipleMatchingTokensInCacheError (printScopes env requestScopes)))
       \<and> (\<forall>item c3.
            getCachedTokens env requestScopes (canonicalAuthority a) (Request.resource r)
              (map_option Account.homeAccountIdentifier acct) c2 = (Inr item, c3)
            \<longrightarrow> remaining = [item])"
proof (intro conjI impI allI)
  assume "remaining = []"
  with assms(2) have "\<exists>c3. getCachedTokens env requestScopes (canonicalAuthority a) (Request.resource r)
           (map_option Account.homeAccountIdentifier acct) c2
         = (Inl (NoTokensFoundError (printScopes env requestScopes)), c3)"
    by (simp add: getCachedTokens_def Let_def)
  then obtain c3 where "getCachedTokens env requestScopes (canonicalAuthority a) (Request.resource r)
           (map_option Account.homeAccountIdentifier acct) c2
         = (Inl (NoTokensFoundError (printScopes env requestScopes)), c3)" ..
  from getValidToken_lookup_failed [OF assms(1) this]
  show "fst (getValidToken env (Some r) c) = Inl (NoTokensFoundError (printScopes env requestScopes))"
    by (simp add: resetAndRethrow_def)
next
  assume many: "1 < length remaining"
  then have "remaining \<noteq> []" by auto
  with assms(2) have "getAllAccessTokens env (cacheStorage c2)
                (AuthOptions.clientId (authOptions (config c2))) (canonicalAuthority a)
                (or_empty (Request.resource r))
                (or_empty (map_option Account.homeAccountIdentifier acct)) \<noteq> []"
    by auto
  with many assms(2) have "\<exists>c3. getCachedTokens env requestScopes (canonicalAuthority a) (Request.resource r)
           (map_option Account.homeAccountIdentifier acct) c2
         = (Inl (MultipleMatchingTokensInCacheError (printScopes env requestScopes)), c3)"
    by (simp add: getCachedTokens_def Let_def)
  then obtain c3 where "getCachedTokens env requestScopes (canonicalAuthority a) (Request.resource r)
           (map_option Account.homeAccountIdentifier acct) c2
         = (Inl (MultipleMatchingTokensInCacheError (printScopes env requestScopes)), c3)" ..
  from getValidToken_lookup_failed [OF assms(1) this]
  show "fst (getValidToken env (Some r) c)
          = Inl (MultipleMatchingTokensInCacheError (printScopes env requestScopes))"
    by (simp add: resetAndRethrow_def)
next
  fix item c3
  assume "getCachedTokens env requestScopes (canonicalAuthority a) (Request.resource r)
              (map_option Account.homeAccountIdentifier acct) c2 = (Inr item, c3)"
  with assms(2) have "length remaining = 1 \<and> item = remaining ! 0"
    by (auto simp add: getCachedTokens_def Let_def split: if_splits)
  then show "remaining = [item]"
    by (cases remaining) auto
qed

text \<open>
  C2 at a cache with two entries that differ in their refresh token only, at a cache
  whose single entry lacks the requested scope, and at a cache whose single entry is the
  one the lookup yields.
\<close>

theorem getValidToken_zero_or_many_witness:
  "fst (getValidToken
          (demo_env [demo_item (Some 4600) ''refresh-token-1'' None,
                     demo_item (Some 4600) ''refresh-token-2'' None] (Inr demo_token_answer))
          (Some (demo_request [''read''] (Some demo_alice) False))
          (demo_client (RedirectString ''https://app/redirect'')))
     = Inl (MultipleMatchingTokensInCacheError ''read'')
   \<and> fst (getValidToken
          (demo_env [demo_item (Some 4600) ''refresh-token-1'' None] (Inr demo_token_answer))
          (Some (demo_request [''write''] (Some demo_alice) False))
          (demo_client (RedirectString ''https://app/redirect'')))
     = Inl (NoTokensFoundError ''write'')
   \<and> getCachedTokens
         (demo_env [demo_item (Some 4600) ''refresh-token-1'' None] (Inr demo_token_answer))
         ([''read''], ''app-id'') ''https://login/common'' None (Some ''alice.home'')
         (demo_client (RedirectString ''https://app/redirect''))
     = (Inr (demo_item (Some 4600) ''refresh-token-1'' None),
        (demo_client (RedirectString ''https://app/redirect''))
          \<lparr>calls := [GetAllAccessTokensCall ''app-id'' ''https://login/common'' [] ''alice.home'']\<rparr>)
   \<and> filter (\<lambda>cacheItem.
                containsScopeSet
                  (demo_env [demo_item (Some 4600) ''refresh-token-1'' None] (Inr demo_token_answer))
                  (fromString
                     (demo_env [demo_item (Some 4600) ''refresh-token-1'' None] (Inr demo_token_answer))
                     (AccessTokenKey.scopes (key cacheItem)) ''app-id'' True)
                  ([''read''], ''app-id''))
         (getAllAccessTokens
            (demo_env [demo_item (Some 4600) ''refresh-token-1'' None] (Inr demo_token_answer))
            Map.empty ''app-id'' ''https://login/common'' [] ''alice.home'')
     = [demo_item (Some 4600) ''refresh-token-1'' None]"
proof -
  let ?c = "demo_client (RedirectString ''https://app/redirect'')"
  let ?e2 = "demo_env [demo_item (Some 4600) ''refresh-token-1'' None,
                     demo_item (Some 4600) ''refresh-token-2'' None] (Inr demo_token_answer)"
  let ?e1 = "demo_env [demo_item (Some 4600) ''refresh-token-1'' None] (Inr demo_token_answer)"
  let ?wanted_read = "demo_request [''read''] (Some demo_alice) False"
  let ?wanted_write = "demo_request [''write''] (Some demo_alice) False"
  have r2: "getValidToken_resolve ?e2 ?wanted_read ?c
              = (Inr (Some demo_alice, ([''read''], ''app-id''), defaultAuthority ?c), ?c)"
    by (simp add: demo_defs client_defs)
  have many: "1 < length
     (filter (\<lambda>cacheItem.
                     containsScopeSet ?e2
                       (fromString ?e2 (AccessTokenKey.scopes (key cacheItem))
                          (AuthOptions.clientId (authOptions (config ?c))) True)
                       ([''read''], ''app-id''))
             (getAllAccessTokens ?e2 (cacheStorage ?c)
                (AuthOptions.clientId (authOptions (config ?c))) (canonicalAuthority (defaultAuthority ?c))
                (or_empty (Request.resource ?wanted_read))
                (or_empty (map_option Account.homeAccountIdentifier (Some demo_alice)))))"
    by (simp add: demo_defs or_empty_def)
  have r1: "getValidToken_resolve ?e1 ?wanted_write ?c
              = (Inr (Some demo_alice, ([''write''], ''app-id''), defaultAuthority ?c), ?c)"
    by (simp add: demo_defs client_defs)
  have none: "filter (\<lambda>cacheItem.
                     containsScopeSet ?e1
                       (fromString ?e1 (AccessTokenKey.scopes (key cacheItem))
                          (AuthOptions.clientId (authOptions (config ?c))) True)
                       ([''write''], ''app-id''))
             (getAllAccessTokens ?e1 (cacheStorage ?c)
                (AuthOptions.clientId (authOptions (config ?c))) (canonicalAuthority (defaultAuthority ?c))
                (or_empty (Request.resource ?wanted_write))
                (or_empty (map_option Account.homeAccountIdentifier (Some demo_alice)))) = []"
    by (simp add: demo_defs or_empty_def)
  from getValidToken_zero_or_many_matches [OF r2 refl] many
  have a: "fst (getValidToken ?e2 (Some ?wanted_read) ?c)
       = Inl (MultipleMatchingTokensInCacheError (printScopes ?e2 ([''read''], ''app-id'')))"
    by blast
  from getValidToken_zero_or_many_matches [OF r1 refl] none
  have b: "fst (getValidToken ?e1 (Some ?wanted_write) ?c)
       = Inl (NoTokensFoundError (printScopes ?e1 ([''write''], ''app-id'')))"
    by blast
  have r3: "getValidToken_resolve ?e1 ?wanted_read ?c
              = (Inr (Some demo_alice, ([''read''], ''app-id''), defaultAuthority ?c), ?c)"
    by (simp add: demo_defs client_defs)
  have one: "getCachedTokens ?e1 ([''read''], ''app-id'') (canonicalAuthority (defaultAuthority ?c))
               (Request.resource ?wanted_read)
               (map_option Account.homeAccountIdentifier (Some demo_alice)) ?c
             = (Inr (demo_item (Some 4600) ''refresh-token-1'' None),
                ?c\<lparr>calls := [GetAllAccessTokensCall ''app-id'' ''https://login/common'' [] ''alice.home'']\<rparr>)"
    by (simp add: demo_defs client_defs)
  from getValidToken_zero_or_many_matches [OF r3 refl] one
  have d: "filter (\<lambda>cacheItem.
                     containsScopeSet ?e1
                       (fromString ?e1 (AccessTokenKey.scopes (key cacheItem))
                          (AuthOptions.clientId (authOptions (config ?c))) True)
                       ([''read''], ''app-id''))
             (getAllAccessTokens ?e1 (cacheStorage ?c)
                (AuthOptions.clientId (authOptions (config ?c))) (canonicalAuthority (defaultAuthority ?c))
                (or_empty (Request.resource ?wanted_read))
                (or_empty (map_option Account.homeAccountIdentifier (Some demo_alice))))
           = [demo_item (Some 4600) ''refresh-token-1'' None]"
    by blast
  have params: "AuthOptions.clientId (authOptions (config ?c)) = ''app-id''"
    "canonicalAuthority (defaultAuthority ?c) = ''https://login/common''"
    "cacheStorage ?c = Map.empty" "Request.resource ?wanted_read = None"
    "map_option Account.homeAccountIdentifier (Some demo_alice) = Some ''alice.home''"
    by (simp_all add: demo_client_def demo_request_def demo_alice_def)
  from one d have one': "getCachedTokens ?e1 ([''read''], ''app-id'') ''https://login/common'' None
               (Some ''alice.home'') ?c
             = (Inr (demo_item (Some 4600) ''refresh-token-1'' None),
                ?c\<lparr>calls := [GetAllAccessTokensCall ''app-id'' ''https://login/common'' [] ''alice.home'']\<rparr>)"
    and d': "filter (\<lambda>cacheItem.
                     containsScopeSet ?e1
                       (fromString ?e1 (AccessTokenKey.scopes (key cacheItem)) ''app-id'' True)
                       ([''read''], ''app-id''))
             (getAllAccessTokens ?e1 Map.empty ''app-id'' ''https://login/common'' [] ''alice.home'')
           = [demo_item (Some 4600) ''refresh-token-1'' None]"
    unfolding params by (simp_all add: or_empty_def)
  show ?thesis unfolding a b one' d' by (simp add: demo_env_def)
qed

subsection \<open>A single matching entry\<close>

lemma resolveEndpoints_posts:
  "filter isSendPost (calls (snd (resolveEndpoints env sel c))) = filter isSendPost (calls c)"
  by (simp add: resolveEndpoints_def Let_def split: sum.splits)

lemma resolveEndpointsUnlessComplete_posts:
  "filter isSendPost (calls (snd (resolveEndpointsUnlessComplete env sel c)))
     = filter isSendPost (calls c)"
  by (simp add: resolveEndpointsUnlessComplete_def resolveEndpoints_posts)

lemma getValidToken_resolve_posts:
  "filter isSendPost (calls (snd (getValidToken_resolve env r c))) = filter isSendPost (calls c)"
proof -
  obtain res c1 where acc:
    "(case Request.account r of Some a \<Rightarrow> (Inr (Some a), c) | None \<Rightarrow> getAccount env c) = (res, c1)"
    by (cases "(case Request.account r of Some a \<Rightarrow> (Inr (Some a), c) | None \<Rightarrow> getAccount env c)")
  have c1: "calls c1 = calls c"
  proof (cases "Request.account r")
    case None
    with acc have "c1 = snd (getAccount env c)" by simp
    then show ?thesis by (simp add: getAccount_calls)
  next
    case (Some a)
    with acc show ?thesis by simp
  qed
  show ?thesis
  proof (cases res)
    case (Inl e)
    with acc c1 show ?thesis by (simp add: getValidToken_resolve_def)
  next
    case (Inr acct)
    obtain res2 c2 where res2: "resolveEndpointsUnlessComplete env
        (selectAuthority env (Request.authority r) c1) c1 = (res2, c2)"
      by (cases "resolveEndpointsUnlessComplete env (selectAuthority env (Request.authority r) c1) c1")
    with resolveEndpointsUnlessComplete_posts [of env "selectAuthority env (Request.authority r) c1" c1] c1
    have c2: "filter isSendPost (calls c2) = filter isSendPost (calls c)" by simp
    from Inr acc c1 res2 c2 show ?thesis
      by (cases res2) (simp_all add: getValidToken_resolve_def Let_def split: sum.splits)
  qed
qed

lemma getCachedTokens_state:
  "snd (getCachedTokens env requestScopes authorityUri resourceId homeAccountId c)
     = c\<lparr>calls := calls c @
            [GetAllAccessTokensCall (AuthOptions.clientId (authOptions (config c))) authorityUri
               (or_empty resourceId) (or_empty homeAccountId)]\<rparr>"
  by (simp add: getCachedTokens_def Let_def)

lemma getCachedTokens_single:
  assumes "filter (\<lambda>cacheItem.
                     containsScopeSet env
                       (fromString env (AccessTokenKey.scopes (key cacheItem))
                          (AuthOptions.clientId (authOptions (config c))) True)
                       requestScopes)
             (getAllAccessTokens env (cacheStorage c)
                (AuthOptions.clientId (authOptions (config c))) authorityUri
                (or_empty resourceId) (or_empty homeAccountId)) = [item]"
  shows "getCachedTokens env requestScopes authorityUri resourceId homeAccountId c
           = (Inr item,
              c\<lparr>calls := calls c @
                   [GetAllAccessTokensCall (AuthOptions.clientId (authOptions (config c))) authorityUri
                      (or_empty resourceId) (or_empty homeAccountId)]\<rparr>)"
proof -
  from assms have "getAllAccessTokens env (cacheStorage c)
                (AuthOptions.clientId (authOptions (config c))) authorityUri
                (or_empty resourceId) (or_empty homeAccountId) \<noteq> []"
    by auto
  with assms show ?thesis
    by (simp add: getCachedTokens_def Let_def)
qed

text \<open>
  A whole number below two to the power of 53 in size is a double; the double nearest to
  a whole number of that size or more is of that size or more.
\<close>

lemma round_half_even_of_int: "round_half_even (of_int k) = k"
  by (simp add: round_half_even_def)

lemma round_half_even_ge:
  assumes "of_int k \<le> x" shows "k \<le> round_half_even x"
proof -
  from assms have "k \<le> \<lfloor>x\<rfloor>" by (simp add: le_floor_iff)
  then show ?thesis by (simp add: round_half_even_def Let_def)
qed

lemma round_half_even_le:
  assumes "x \<le> of_int k" shows "round_half_even x \<le> k"
proof (cases "x = of_int \<lfloor>x\<rfloor>")
  case True
  then have "round_half_even x = \<lfloor>x\<rfloor>" by (simp add: round_half_even_def Let_def)
  with assms show ?thesis by (simp add: floor_le_iff)
next
  case False
  with of_int_floor_le [of x] have "of_int \<lfloor>x\<rfloor> < x" by linarith
  with assms have "of_int \<lfloor>x\<rfloor> < (of_int k :: rat)" by linarith
  then have "\<lfloor>x\<rfloor> < k" by simp
  then show ?thesis by (simp add: round_half_even_def Let_def)
qed

lemma binary_exponent_of_int:
  assumes "0 < a" shows "binary_exponent (of_int a) = bitlen a - 1"
  using assms by (simp add: binary_exponent_def)

lemma round_double_small:
  assumes "\<bar>m\<bar> < 2 ^ 53"
  shows "round_double (of_int m) = of_int m"
proof (cases "m = 0")
  case True then show ?thesis by (simp add: round_double_def)
next
  case False
  then have pos: "0 < \<bar>m\<bar>" by simp
  from assms have "bitlen \<bar>m\<bar> \<le> 53" by (simp add: bitlen_le_iff_power)
  then have n: "bitlen \<bar>m\<bar> - 1 - 52 = - int n" if "n = nat (53 - bitlen \<bar>m\<bar>)" for n
    using that by simp
  define n where "n = nat (53 - bitlen \<bar>m\<bar>)"
  note n = n [OF n_def]
  have e: "binary_exponent \<bar>of_int m\<bar> - 52 = - int n"
    using binary_exponent_of_int [OF pos] n by (simp flip: of_int_abs)
  have p: "(2::rat) powi (- int n) = 1 / 2 ^ n" by (simp add: power_int_minus field_simps)
  have "of_int m / (2::rat) powi (- int n) = of_int (m * 2 ^ n)" by (simp add: p)
  then have "round_half_even (of_int m / 2 powi (- int n)) = m * 2 ^ n"
    by (simp only: round_half_even_of_int)
  with False e p show ?thesis by (simp add: round_double_def Let_def)
qed

lemma round_double_large:
  assumes "2 ^ 53 \<le> \<bar>m\<bar>"
  shows "2 ^ 53 \<le> \<bar>round_double (of_int m)\<bar>"
proof -
  from assms have pos: "0 < \<bar>m\<bar>" and nz: "m \<noteq> 0" by auto
  from assms have "54 \<le> bitlen \<bar>m\<bar>" by (simp add: bitlen_ge_iff_power)
  define n where "n = nat (bitlen \<bar>m\<bar> - 53)"
  with \<open>54 \<le> bitlen \<bar>m\<bar>\<close> have n: "bitlen \<bar>m\<bar> - 1 - 52 = int n" and n1: "1 \<le> n" by simp_all
  have e: "binary_exponent \<bar>of_int m\<bar> - 52 = int n"
    using binary_exponent_of_int [OF pos] n by (simp flip: of_int_abs)
  from bitlen_bounds [OF pos] have "2 ^ nat (bitlen \<bar>m\<bar> - 1) \<le> \<bar>m\<bar>" ..
  moreover have "nat (bitlen \<bar>m\<bar> - 1) = 52 + n" using n by simp
  ultimately have lower: "(2::int) ^ 52 * 2 ^ n \<le> \<bar>m\<bar>" by (simp add: power_add)
  let ?y = "of_int m / (2::rat) ^ n"
  have big: "2 ^ 52 \<le> \<bar>round_half_even ?y\<bar>"
  proof (cases "0 \<le> m")
    case True
    with lower have "(2::int) ^ 52 * 2 ^ n \<le> m" by simp
    then have "of_int ((2::int) ^ 52 * 2 ^ n) \<le> (of_int m :: rat)" by (simp only: of_int_le_iff)
    then have "of_int (2 ^ 52) \<le> ?y" by (simp add: field_simps)
    from round_half_even_ge [OF this] show ?thesis by simp
  next
    case False
    with lower have "m \<le> - ((2::int) ^ 52 * 2 ^ n)" by simp
    then have "(of_int m :: rat) \<le> of_int (- ((2::int) ^ 52 * 2 ^ n))" by (simp only: of_int_le_iff)
    then have "?y \<le> of_int (- (2 ^ 52))" by (simp add: field_simps)
    from round_half_even_le [OF this] show ?thesis by simp
  qed
  have "round_double (of_int m) = of_int (round_half_even ?y) * 2 ^ n"
    using nz e by (simp add: round_double_def Let_def)
  then have "\<bar>round_double (of_int m)\<bar> = of_int \<bar>round_half_even ?y\<bar> * 2 ^ n"
    by (simp add: abs_mult)
  moreover from big have "(2::rat) ^ 52 \<le> of_int \<bar>round_half_even ?y\<bar>"
    by (metis of_int_le_iff of_int_numeral of_int_power)
  moreover have "(2::rat) ^ 1 \<le> 2 ^ n" using n1 by (intro power_increasing) simp_all
  ultimately have "(2::rat) ^ 52 * 2 ^ 1 \<le> \<bar>round_double (of_int m)\<bar>"
    by (simp only: mult_mono zero_le_numeral zero_le_power)
  then show ?thesis by simp
qed

lemma toInteger_of_int: "toInteger (of_int k) = k"
  by (simp add: toInteger_def)

text \<open>
  The date of an expiry of a whole number of milliseconds: the product is exact.
\<close>

lemma newDate_of_whole_milliseconds:
  assumes "q * 1000 = of_int m"
  shows "newDate_of_seconds (Finite q)
           = (if \<bar>m\<bar> \<le> 8640000000000000 then Some m else None)"
proof (cases "\<bar>m\<bar> < 2 ^ 53")
  case True
  have "(\<bar>of_int m :: rat\<bar> \<le> 8640000000000000) = (\<bar>m\<bar> \<le> 8640000000000000)"
    by (metis of_int_abs of_int_le_iff of_int_numeral)
  with round_double_small [OF True] show ?thesis
    unfolding newDate_of_seconds_def js_number.case assms Let_def by (simp only: toInteger_of_int)
next
  case False
  then have "2 ^ 53 \<le> \<bar>m\<bar>" by simp
  from round_double_large [OF this] have "\<not> \<bar>round_double (of_int m)\<bar> \<le> 8640000000000000"
    by simp
  moreover from False have "\<not> \<bar>m\<bar> \<le> 8640000000000000" by simp
  ultimately show ?thesis
    unfolding newDate_of_seconds_def js_number.case assms Let_def by (simp only: if_False)
qed

lemma newDate_of_whole_seconds:
  "newDate_of_seconds (Finite (of_int n))
     = (if \<bar>n * 1000\<bar> \<le> 8640000000000000 then Some (n * 1000) else None)"
  by (rule newDate_of_whole_milliseconds) simp

lemma newDate_of_numeral_seconds:
  "newDate_of_seconds (Finite (numeral k))
     = (if (numeral k * 1000 :: int) \<le> 8640000000000000 then Some (numeral k * 1000) else None)"
  using newDate_of_whole_seconds [of "numeral k"] by simp

lemma newDate_not_finite:
  "newDate_of_seconds NaN = None"
  "newDate_of_seconds NegInfinity = None"
  "newDate_of_seconds PosInfinity = None"
  by (simp_all add: newDate_of_seconds_def)

text \<open>
  Three expiries with a fraction, the doubles 4600.5, 4.35 and 1.001: the product of the
  second with 1000 is rounded up to 4350, that of the third stays below 1001.
\<close>

lemma newDate_of_fractional_seconds:
  "newDate_of_seconds (Finite (9201 / 2)) = Some 4600500"
  "newDate_of_seconds (Finite (2448832297382707 / 562949953421312)) = Some 4350"
  "newDate_of_seconds (Finite (2254051613498933 / 2251799813685248)) = Some 1000"
  by code_simp+

lemma fresh_number:
  "truthy_number x \<and> number_greater x m
     \<longleftrightarrow> x = PosInfinity \<or> (\<exists>q. x = Finite q \<and> q \<noteq> 0 \<and> of_int m < q)"
  by (cases x) auto

lemma getValidToken_respond_fresh:
  assumes "\<not> forceRefresh r"
    and "expiresOnSec (value' item) = PosInfinity
         \<or> (\<exists>q. expiresOnSec (value' item) = Finite q \<and> q \<noteq> 0
                 \<and> of_int (nowSeconds env + tokenRenewalOffsetSeconds (systemOptions (config c))) < q)"
  shows "getValidToken_respond env r acct a item c
           = (if isEmpty (AccessTokenValue.idToken (value' item))
              then (Inr (ReturnResponse
                      (defaultTokenResponse env (AuthOptions.clientId (authOptions (config c))) acct item)), c)
              else (case newIdToken env (or_empty (AccessTokenValue.idToken (value' item))) of
                      Inl e \<Rightarrow> (Inl e, c)
                    | Inr t \<Rightarrow>
                        (Inr (ReturnResponse
                           (setResponseIdToken env
                              (defaultTokenResponse env (AuthOptions.clientId (authOptions (config c)))
                                 acct item) t)), c)))"
proof -
  from assms(2) have "truthy_number (expiresOnSec (value' item))
      \<and> number_greater (expiresOnSec (value' item))
          (nowSeconds env + tokenRenewalOffsetSeconds (systemOptions (config c)))"
    by (simp only: fresh_number)
  with assms(1) show ?thesis
    by (simp add: getValidToken_respond_def Let_def)
qed

lemma getValidToken_respond_stale:
  assumes "\<not> (\<not> forceRefresh r
              \<and> (expiresOnSec (value' item) = PosInfinity
                  \<or> (\<exists>q. expiresOnSec (value' item) = Finite q \<and> q \<noteq> 0
                          \<and> of_int (nowSeconds env + tokenRenewalOffsetSeconds (systemOptions (config c))) < q)))"
  shows "getValidToken_respond env r acct a item c
           = (Inr (ReturnRenewToken
                     (r\<lparr>Request.authority := Some (AccessTokenKey.authority (key item))\<rparr>)
                     (tokenEndpoint a) (AccessTokenValue.refreshToken (value' item))), c)"
proof -
  from assms have "\<not> (\<not> forceRefresh r \<and> truthy_number (expiresOnSec (value' item))
      \<and> number_greater (expiresOnSec (value' item))
          (nowSeconds env + tokenRenewalOffsetSeconds (systemOptions (config c))))"
    using fresh_number [of "expiresOnSec (value' item)"
            "nowSeconds env + tokenRenewalOffsetSeconds (systemOptions (config c))"]
    by blast
  then show ?thesis
    unfolding getValidToken_respond_def Let_def by (rule if_not_P)
qed

lemma defaultTokenResponse_fields:
  "defaultTokenResponse env appClientId acct item
     = \<lparr>uniqueId = [], tenantId = [],
        TokenResponse.scopes =
          asArray env (fromString env (AccessTokenKey.scopes (key item)) appClientId True),
        TokenResponse.tokenType = AccessTokenValue.tokenType (value' item),
        TokenResponse.idToken = [], idTokenClaims = None,
        TokenResponse.accessToken = AccessTokenValue.accessToken (value' item),
        TokenResponse.refreshToken = AccessTokenValue.refreshToken (value' item),
        expiresOn =
          newDate_of_seconds (expiresOnSec (value' item)),
        TokenResponse.account = acct,
        TokenResponse.userRequestState = []\<rparr>"
  by (simp add: defaultTokenResponse_def)

text \<open>
  C1, as amended. Let a \<open>getValidToken\<close> request reach the cache lookup and let exactly
  one entry remain after the filter on the scopes; \<open>c3\<close> is the client after the lookup.
  Call the entry fresh when no refresh is forced and its expiry is truthy (not NaN, which
  is what an undefined expiry converts to, and not zero, which is what null and the empty
  string convert to) and greater than the current time plus the renewal offset.
  \<^item> A fresh entry is answered from the cache, with no POST sent. The result has the
    access token, the refresh token and the token type of the entry, the scopes parsed from
    the entry's key, the date of the entry's expiry, the account of the request, and an
    empty id token: that is the result when the entry's id token is empty, and the result
    with the id token set when the id token decodes. When the id token does not decode,
    the error of the decoder is the error of the call.
  \<^item> An entry that is not fresh is renewed when a redirect URI is configured: the result
    is that of the exchange with the token endpoint, and one POST went to the token endpoint
    of the authority, its body made with the entry's refresh token.
  \<^item> An entry that is not fresh, with no redirect URI configured: the call fails with
    \<open>RedirectUriEmptyError\<close> and nothing is sent.
  \<^item> The date of an expiry of a whole number \<open>n\<close> of seconds is that of \<open>n * 1000\<close>
    milliseconds, and the Invalid Date when that is beyond 8.64e15 on either side.
\<close>

theorem getValidToken_single_match:
  assumes resolved: "getValidToken_resolve env r c = (Inr (acct, requestScopes, a), c2)"
    and single: "filter (\<lambda>cacheItem.
                     containsScopeSet env
                       (fromString env (AccessTokenKey.scopes (key cacheItem))
                          (AuthOptions.clientId (authOptions (config c2))) True)
                       requestScopes)
             (getAllAccessTokens env (cacheStorage c2)
                (AuthOptions.clientId (authOptions (config c2))) (canonicalAuthority a)
                (or_empty (Request.resource r))
                (or_empty (map_option Account.homeAccountIdentifier acct))) = [item]"
    and c3: "c3 = c2\<lparr>calls := calls c2 @
                   [GetAllAccessTokensCall (AuthOptions.clientId (authOptions (config c2)))
                      (canonicalAuthority a) (or_empty (Request.resource r))
                      (or_empty (map_option Account.homeAccountIdentifier acct))]\<rparr>"
    and fresh: "fresh \<longleftrightarrow>
           \<not> forceRefresh r
           \<and> (expiresOnSec (value' item) = PosInfinity
               \<or> (\<exists>q. expiresOnSec (value' item) = Finite q \<and> q \<noteq> 0
                       \<and> of_int (nowSeconds env + tokenRenewalOffsetSeconds (systemOptions (config c2))) < q))"
    and response: "response =
           \<lparr>uniqueId = [], tenantId = [],
            TokenResponse.scopes =
              asArray env (fromString env (AccessTokenKey.scopes (key item))
                             (AuthOptions.clientId (authOptions (config c2))) True),
            TokenResponse.tokenType = AccessTokenValue.tokenType (value' item),
            TokenResponse.idToken = [], idTokenClaims = None,
            TokenResponse.accessToken = AccessTokenValue.accessToken (value' item),
            TokenResponse.refreshToken = AccessTokenValue.refreshToken (value' item),
            expiresOn =
              newDate_of_seconds (expiresOnSec (value' item)),
            TokenResponse.account = acct,
            TokenResponse.userRequestState = []\<rparr>"
    and params: "params =
           \<lparr>clientIdParam = AuthOptions.clientId (authOptions (config c2)),
            tokenRequestParam = r\<lparr>Request.authority := Some (AccessTokenKey.authority (key item))\<rparr>,
            codeResponseParam = None, redirectUriParam = uri,
            refreshTokenParam = Some (AccessTokenValue.refreshToken (value' item))\<rparr>"
  shows "(fresh \<longrightarrow>
            filter isSendPost (calls (snd (getValidToken env (Some r) c))) = filter isSendPost (calls c)
            \<and> (isEmpty (AccessTokenValue.idToken (value' item)) \<longrightarrow>
                 getValidToken env (Some r) c = (Inr response, c3))
            \<and> (\<forall>t. \<not> isEmpty (AccessTokenValue.idToken (value' item))
                    \<and> newIdToken env (or_empty (AccessTokenValue.idToken (value' item))) = Inr t \<longrightarrow>
                 getValidToken env (Some r) c = (Inr (setResponseIdToken env response t), c3))
            \<and> (\<forall>e. \<not> isEmpty (AccessTokenValue.idToken (value' item))
                    \<and> newIdToken env (or_empty (AccessTokenValue.idToken (value' item))) = Inl e \<longrightarrow>
                 fst (getValidToken env (Some r) c) = Inl e))
       \<and> (\<not> fresh \<and> getRedirectUri c3 = Inr uri \<longrightarrow>
            getValidToken env (Some r) c
              = getTokenResponse env (tokenEndpoint a) params
                  (r\<lparr>Request.authority := Some (AccessTokenKey.authority (key item))\<rparr>) None c3
            \<and> calls (snd (getValidToken env (Some r) c))
                = calls c3 @ [SendPostCall (tokenEndpoint a) (createRequestBody env params)])
       \<and> (\<not> fresh \<and> getRedirectUri c3 = Inl RedirectUriEmptyError \<longrightarrow>
            getValidToken env (Some r) c = (Inl RedirectUriEmptyError, c3))
       \<and> (\<forall>n. expiresOnSec (value' item) = Finite (of_int n) \<longrightarrow>
            expiresOn response
              = (if \<bar>n * 1000\<bar> \<le> 8640000000000000 then Some (n * 1000) else None))"
proof -
  have found: "getCachedTokens env requestScopes (canonicalAuthority a) (Request.resource r)
           (map_option Account.homeAccountIdentifier acct) c2 = (Inr item, c3)"
    unfolding c3 by (rule getCachedTokens_single [OF single])
  have tried: "getValidToken_try env (Some r) c = getValidToken_respond env r acct a item c3"
    by (rule getValidToken_lookup_found [OF resolved found])
  have cfg: "config c3 = config c2" by (simp add: c3)
  have posts: "filter isSendPost (calls c3) = filter isSendPost (calls c)"
  proof -
    have "filter isSendPost (calls c3) = filter isSendPost (calls c2)" by (simp add: c3)
    also from resolved getValidToken_resolve_posts [of env r c]
    have "filter isSendPost (calls c2) = filter isSendPost (calls c)" by simp
    finally show ?thesis .
  qed
  have resp: "response = defaultTokenResponse env (AuthOptions.clientId (authOptions (config c3))) acct item"
    unfolding response cfg by (rule defaultTokenResponse_fields [symmetric])
  have hit: "getValidToken_respond env r acct a item c3
           = (if isEmpty (AccessTokenValue.idToken (value' item))
              then (Inr (ReturnResponse response), c3)
              else (case newIdToken env (or_empty (AccessTokenValue.idToken (value' item))) of
                      Inl e \<Rightarrow> (Inl e, c3)
                    | Inr t \<Rightarrow> (Inr (ReturnResponse (setResponseIdToken env response t)), c3)))"
    if fresh
  proof -
    from that fresh have "\<not> forceRefresh r"
      and "expiresOnSec (value' item) = PosInfinity
         \<or> (\<exists>q. expiresOnSec (value' item) = Finite q \<and> q \<noteq> 0
                 \<and> of_int (nowSeconds env + tokenRenewalOffsetSeconds (systemOptions (config c3))) < q)"
      by (simp_all add: cfg)
    from getValidToken_respond_fresh [OF this, of acct a] show ?thesis
      unfolding resp .
  qed
  have miss: "getValidToken_respond env r acct a item c3
           = (Inr (ReturnRenewToken
                     (r\<lparr>Request.authority := Some (AccessTokenKey.authority (key item))\<rparr>)
                     (tokenEndpoint a) (AccessTokenValue.refreshToken (value' item))), c3)"
    if "\<not> fresh"
  proof -
    from that fresh have "\<not> (\<not> forceRefresh r
              \<and> (expiresOnSec (value' item) = PosInfinity
                  \<or> (\<exists>q. expiresOnSec (value' item) = Finite q \<and> q \<noteq> 0
                          \<and> of_int (nowSeconds env + tokenRenewalOffsetSeconds (systemOptions (config c3))) < q)))"
      by (simp add: cfg)
    then show ?thesis by (rule getValidToken_respond_stale)
  qed
  show ?thesis
  proof (intro conjI impI allI)
    assume f: fresh
    have "calls (snd (getValidToken env (Some r) c)) = calls c3"
      using tried hit [OF f]
      by (simp add: getValidToken_def resetAndRethrow_def split: sum.splits)
    then show "filter isSendPost (calls (snd (getValidToken env (Some r) c)))
                 = filter isSendPost (calls c)"
      by (simp add: posts)
  next
    assume f: fresh and "isEmpty (AccessTokenValue.idToken (value' item))"
    with tried hit [OF f] show "getValidToken env (Some r) c = (Inr response, c3)"
      by (simp add: getValidToken_def)
  next
    fix t
    assume f: fresh and "\<not> isEmpty (AccessTokenValue.idToken (value' item))
              \<and> newIdToken env (or_empty (AccessTokenValue.idToken (value' item))) = Inr t"
    with tried hit [OF f]
    show "getValidToken env (Some r) c = (Inr (setResponseIdToken env response t), c3)"
      by (simp add: getValidToken_def)
  next
    fix e
    assume f: fresh and "\<not> isEmpty (AccessTokenValue.idToken (value' item))
              \<and> newIdToken env (or_empty (AccessTokenValue.idToken (value' item))) = Inl e"
    with tried hit [OF f]
    show "fst (getValidToken env (Some r) c) = Inl e"
      by (simp add: getValidToken_def resetAndRethrow_def)
  next
    assume h: "\<not> fresh \<and> getRedirectUri c3 = Inr uri"
    with tried miss params cfg
    show eq: "getValidToken env (Some r) c
              = getTokenResponse env (tokenEndpoint a) params
                  (r\<lparr>Request.authority := Some (AccessTokenKey.authority (key item))\<rparr>) None c3"
      by (simp add: getValidToken_def renewToken_def)
    show "calls (snd (getValidToken env (Some r) c))
                = calls c3 @ [SendPostCall (tokenEndpoint a) (createRequestBody env params)]"
      unfolding eq
      by (simp add: getTokenResponse_def Let_def split: sum.splits option.splits prod.splits)
  next
    assume h: "\<not> fresh \<and> getRedirectUri c3 = Inl RedirectUriEmptyError"
    with tried miss show "getValidToken env (Some r) c = (Inl RedirectUriEmptyError, c3)"
      by (simp add: getValidToken_def renewToken_def)
  next
    fix n
    assume "expiresOnSec (value' item) = Finite (of_int n)"
    then show "expiresOn response
              = (if \<bar>n * 1000\<bar> \<le> 8640000000000000 then Some (n * 1000) else None)"
      by (simp add: response newDate_of_whole_seconds)
  qed
qed

text \<open>
  C1 at five requests (the current time is 1000, the offset 300 seconds): an entry that
  expires 3600 seconds from now is returned as it is cached, its date that of 4600000
  milliseconds; with an id token, it is returned with the id token set; with an id token
  that does not decode, the call fails with the error of the decoder; an entry that
  expires 10 seconds from now is renewed by a POST with its refresh token, and the new
  access token is returned; a forced refresh on a client with no redirect URI fails before
  anything is sent.
\<close>

theorem getValidToken_single_match_witness:
  "getValidToken (demo_env [demo_item (Some 4600) ''cached-refresh-token'' None] (Inr demo_token_answer))
     (Some (demo_request [''read''] (Some demo_alice) False))
     (demo_client (RedirectString ''https://app/redirect''))
   = (Inr \<lparr>uniqueId = [], tenantId = [], TokenResponse.scopes = [''read''],
           TokenResponse.tokenType = ''Bearer'', TokenResponse.idToken = [], idTokenClaims = None,
           TokenResponse.accessToken = ''cached-access-token'',
           TokenResponse.refreshToken = ''cached-refresh-token'',
           expiresOn = Some 4600000, TokenResponse.account = Some demo_alice,
           TokenResponse.userRequestState = []\<rparr>,
      (demo_client (RedirectString ''https://app/redirect''))
        \<lparr>calls := [GetAllAccessTokensCall ''app-id'' ''https://login/common'' [] ''alice.home'']\<rparr>)
   \<and> getValidToken
         (demo_env [demo_item (Some 4600) ''cached-refresh-token'' (Some ''raw-id-token'')]
            (Inr demo_token_answer))
         (Some (demo_request [''read''] (Some demo_alice) False))
         (demo_client (RedirectString ''https://app/redirect''))
     = (Inr \<lparr>uniqueId = [], tenantId = [], TokenResponse.scopes = [''read''],
             TokenResponse.tokenType = ''Bearer'', TokenResponse.idToken = ''raw-id-token'',
             idTokenClaims = Some [],
             TokenResponse.accessToken = ''cached-access-token'',
             TokenResponse.refreshToken = ''cached-refresh-token'',
             expiresOn = Some 4600000, TokenResponse.account = Some demo_alice,
             TokenResponse.userRequestState = []\<rparr>,
        (demo_client (RedirectString ''https://app/redirect''))
          \<lparr>calls := [GetAllAccessTokensCall ''app-id'' ''https://login/common'' [] ''alice.home'']\<rparr>)
   \<and> fst (getValidToken
         (demo_env [demo_item (Some 4600) ''cached-refresh-token'' (Some ''malformed'')]
            (Inr demo_token_answer))
         (Some (demo_request [''read''] (Some demo_alice) False))
         (demo_client (RedirectString ''https://app/redirect'')))
     = Inl (CollaboratorError ''id token'')
   \<and> calls (snd (getValidToken
         (demo_env [demo_item (Some 1010) ''cached-refresh-token'' None] (Inr demo_token_answer))
         (Some (demo_request [''read''] (Some demo_alice) False))
         (demo_client (RedirectString ''https://app/redirect''))))
     = [GetAllAccessTokensCall ''app-id'' ''https://login/common'' [] ''alice.home'',
        SendPostCall ''https://login/common/token''
          ''grant_type=refresh_token&refresh_token=cached-refresh-token'']
   \<and> TokenResponse.accessToken (projr (fst (getValidToken
         (demo_env [demo_item (Some 1010) ''cached-refresh-token'' None] (Inr demo_token_answer))
         (Some (demo_request [''read''] (Some demo_alice) False))
         (demo_client (RedirectString ''https://app/redirect'')))))
     = ''new-access-token''
   \<and> getValidToken
         (demo_env [demo_item (Some 4600) ''cached-refresh-token'' None] (Inr demo_token_answer))
         (Some (demo_request [''read''] (Some demo_alice) True))
         (demo_client RedirectAbsent)
     = (Inl RedirectUriEmptyError,
        (demo_client RedirectAbsent)
          \<lparr>calls := [GetAllAccessTokensCall ''app-id'' ''https://login/common'' [] ''alice.home'']\<rparr>)"
proof -
  let ?c = "demo_client (RedirectString ''https://app/redirect'')"
  let ?n = "demo_client RedirectAbsent"
  let ?r = "demo_request [''read''] (Some demo_alice) False"
  let ?f = "demo_request [''read''] (Some demo_alice) True"
  let ?hit = "demo_item (Some 4600) ''cached-refresh-token'' None"
  let ?idt = "demo_item (Some 4600) ''cached-refresh-token'' (Some ''raw-id-token'')"
  let ?old = "demo_item (Some 1010) ''cached-refresh-token'' None"
  let ?bad = "demo_item (Some 4600) ''cached-refresh-token'' (Some ''malformed'')"
  let ?e1 = "demo_env [?hit] (Inr demo_token_answer)"
  let ?e2 = "demo_env [?old] (Inr demo_token_answer)"
  let ?e3 = "demo_env [?idt] (Inr demo_token_answer)"
  let ?e5 = "demo_env [?bad] (Inr demo_token_answer)"
  let ?c3 = "\<lambda>c. c\<lparr>calls := calls c @
                   [GetAllAccessTokensCall (AuthOptions.clientId (authOptions (config c)))
                      (canonicalAuthority (defaultAuthority c)) (or_empty (Request.resource ?r))
                      (or_empty (map_option Account.homeAccountIdentifier (Some demo_alice)))]\<rparr>"
  have c3: "?c3 ?c = ?c\<lparr>calls := [GetAllAccessTokensCall ''app-id'' ''https://login/common'' [] ''alice.home'']\<rparr>"
    "?c3 ?n = ?n\<lparr>calls := [GetAllAccessTokensCall ''app-id'' ''https://login/common'' [] ''alice.home'']\<rparr>"
    by (simp_all add: demo_defs or_empty_def)
  have res: "Request.resource ?f = Request.resource ?r"
    by (simp add: demo_request_def)
  have r1: "getValidToken_resolve ?e1 ?r ?c
              = (Inr (Some demo_alice, ([''read''], ''app-id''), defaultAuthority ?c), ?c)"
    by (simp add: demo_defs client_defs)
  have s1: "filter (\<lambda>cacheItem.
                     containsScopeSet ?e1
                       (fromString ?e1 (AccessTokenKey.scopes (key cacheItem))
                          (AuthOptions.clientId (authOptions (config ?c))) True)
                       ([''read''], ''app-id''))
             (getAllAccessTokens ?e1 (cacheStorage ?c)
                (AuthOptions.clientId (authOptions (config ?c))) (canonicalAuthority (defaultAuthority ?c))
                (or_empty (Request.resource ?r))
                (or_empty (map_option Account.homeAccountIdentifier (Some demo_alice)))) = [?hit]"
    by (simp add: demo_defs or_empty_def)
  have r2: "getValidToken_resolve ?e2 ?r ?c
              = (Inr (Some demo_alice, ([''read''], ''app-id''), defaultAuthority ?c), ?c)"
    by (simp add: demo_defs client_defs)
  have s2: "filter (\<lambda>cacheItem.
                     containsScopeSet ?e2
                       (fromString ?e2 (AccessTokenKey.scopes (key cacheItem))
                          (AuthOptions.clientId (authOptions (config ?c))) True)
                       ([''read''], ''app-id''))
             (getAllAccessTokens ?e2 (cacheStorage ?c)
                (AuthOptions.clientId (authOptions (config ?c))) (canonicalAuthority (defaultAuthority ?c))
                (or_empty (Request.resource ?r))
                (or_empty (map_option Account.homeAccountIdentifier (Some demo_alice)))) = [?old]"
    by (simp add: demo_defs or_empty_def)
  have r3: "getValidToken_resolve ?e3 ?r ?c
              = (Inr (Some demo_alice, ([''read''], ''app-id''), defaultAuthority ?c), ?c)"
    by (simp add: demo_defs client_defs)
  have s3: "filter (\<lambda>cacheItem.
                     containsScopeSet ?e3
                       (fromString ?e3 (AccessTokenKey.scopes (key cacheItem))
                          (AuthOptions.clientId (authOptions (config ?c))) True)
                       ([''read''], ''app-id''))
             (getAllAccessTokens ?e3 (cacheStorage ?c)
                (AuthOptions.clientId (authOptions (config ?c))) (canonicalAuthority (defaultAuthority ?c))
                (or_empty (Request.resource ?r))
                (or_empty (map_option Account.homeAccountIdentifier (Some demo_alice)))) = [?idt]"
    by (simp add: demo_defs or_empty_def)
  have r5: "getValidToken_resolve ?e5 ?r ?c
              = (Inr (Some demo_alice, ([''read''], ''app-id''), defaultAuthority ?c), ?c)"
    by (simp add: demo_defs client_defs)
  have s5: "filter (\<lambda>cacheItem.
                     containsScopeSet ?e5
                       (fromString ?e5 (AccessTokenKey.scopes (key cacheItem))
                          (AuthOptions.clientId (authOptions (config ?c))) True)
                       ([''read''], ''app-id''))
             (getAllAccessTokens ?e5 (cacheStorage ?c)
                (AuthOptions.clientId (authOptions (config ?c))) (canonicalAuthority (defaultAuthority ?c))
                (or_empty (Request.resource ?r))
                (or_empty (map_option Account.homeAccountIdentifier (Some demo_alice)))) = [?bad]"
    by (simp add: demo_defs or_empty_def)
  have r4: "getValidToken_resolve ?e1 ?f ?n
              = (Inr (Some demo_alice, ([''read''], ''app-id''), defaultAuthority ?n), ?n)"
    by (simp add: demo_defs client_defs)
  have s4: "filter (\<lambda>cacheItem.
                     containsScopeSet ?e1
                       (fromString ?e1 (AccessTokenKey.scopes (key cacheItem))
                          (AuthOptions.clientId (authOptions (config ?n))) True)
                       ([''read''], ''app-id''))
             (getAllAccessTokens ?e1 (cacheStorage ?n)
                (AuthOptions.clientId (authOptions (config ?n))) (canonicalAuthority (defaultAuthority ?n))
                (or_empty (Request.resource ?f))
                (or_empty (map_option Account.homeAccountIdentifier (Some demo_alice)))) = [?hit]"
    by (simp add: demo_defs or_empty_def)
  have fresh1: "\<not> forceRefresh ?r
           \<and> (expiresOnSec (value' ?hit) = PosInfinity
               \<or> (\<exists>q. expiresOnSec (value' ?hit) = Finite q \<and> q \<noteq> 0
                       \<and> of_int (nowSeconds ?e1 + tokenRenewalOffsetSeconds (systemOptions (config ?c))) < q))"
    by (simp add: demo_defs)
  have empty1: "isEmpty (AccessTokenValue.idToken (value' ?hit))"
    by (simp add: demo_defs isEmpty_def)
  have stale2: "\<not> (\<not> forceRefresh ?r
           \<and> (expiresOnSec (value' ?old) = PosInfinity
               \<or> (\<exists>q. expiresOnSec (value' ?old) = Finite q \<and> q \<noteq> 0
                       \<and> of_int (nowSeconds ?e2 + tokenRenewalOffsetSeconds (systemOptions (config ?c))) < q)))"
    by (simp add: demo_defs)
  have uri2: "getRedirectUri (?c3 ?c) = Inr ''https://app/redirect''"
    by (simp add: demo_defs getRedirectUri_def isEmpty_def)
  have fresh3: "\<not> forceRefresh ?r
           \<and> (expiresOnSec (value' ?idt) = PosInfinity
               \<or> (\<exists>q. expiresOnSec (value' ?idt) = Finite q \<and> q \<noteq> 0
                       \<and> of_int (nowSeconds ?e3 + tokenRenewalOffsetSeconds (systemOptions (config ?c))) < q))"
    by (simp add: demo_defs)
  have decoded3: "\<not> isEmpty (AccessTokenValue.idToken (value' ?idt))
       \<and> newIdToken ?e3 (or_empty (AccessTokenValue.idToken (value' ?idt)))
           = Inr \<lparr>rawIdToken = ''raw-id-token'', claims = []\<rparr>"
    by (simp add: demo_defs isEmpty_def or_empty_def)
  have fresh5: "\<not> forceRefresh ?r
           \<and> (expiresOnSec (value' ?bad) = PosInfinity
               \<or> (\<exists>q. expiresOnSec (value' ?bad) = Finite q \<and> q \<noteq> 0
                       \<and> of_int (nowSeconds ?e5 + tokenRenewalOffsetSeconds (systemOptions (config ?c))) < q))"
    by (simp add: demo_defs)
  have failed5: "\<not> isEmpty (AccessTokenValue.idToken (value' ?bad))
       \<and> newIdToken ?e5 (or_empty (AccessTokenValue.idToken (value' ?bad)))
           = Inl (CollaboratorError ''id token'')"
    by (simp add: demo_defs isEmpty_def or_empty_def)
  have whole1: "expiresOnSec (value' ?hit) = Finite (of_int 4600)"
    by (simp add: demo_defs)
  have stale4: "\<not> (\<not> forceRefresh ?f
           \<and> (expiresOnSec (value' ?hit) = PosInfinity
               \<or> (\<exists>q. expiresOnSec (value' ?hit) = Finite q \<and> q \<noteq> 0
                       \<and> of_int (nowSeconds ?e1 + tokenRenewalOffsetSeconds (systemOptions (config ?n))) < q)))"
    by (simp add: demo_defs)
  have uri4: "getRedirectUri (?n\<lparr>calls := calls ?n @
                   [GetAllAccessTokensCall (AuthOptions.clientId (authOptions (config ?n)))
                      (canonicalAuthority (defaultAuthority ?n)) (or_empty (Request.resource ?f))
                      (or_empty (map_option Account.homeAccountIdentifier (Some demo_alice)))]\<rparr>)
               = Inl RedirectUriEmptyError"
    by (simp add: demo_defs getRedirectUri_def)
  from getValidToken_single_match [OF r1 s1 refl refl refl refl] fresh1 empty1
  have a: "getValidToken ?e1 (Some ?r) ?c
     = (Inr \<lparr>uniqueId = [], tenantId = [],
            TokenResponse.scopes =
              asArray ?e1 (fromString ?e1 (AccessTokenKey.scopes (key ?hit))
                             (AuthOptions.clientId (authOptions (config ?c))) True),
            TokenResponse.tokenType = AccessTokenValue.tokenType (value' ?hit),
            TokenResponse.idToken = [], idTokenClaims = None,
            TokenResponse.accessToken = AccessTokenValue.accessToken (value' ?hit),
            TokenResponse.refreshToken = AccessTokenValue.refreshToken (value' ?hit),
            expiresOn =
              newDate_of_seconds (expiresOnSec (value' ?hit)),
            TokenResponse.account = Some demo_alice,
            TokenResponse.userRequestState = []\<rparr>, ?c3 ?c)"
    by blast
  from getValidToken_single_match [OF r1 s1 refl refl refl refl] whole1
  have "expiresOn
           \<lparr>uniqueId = [], tenantId = [],
            TokenResponse.scopes =
              asArray ?e1 (fromString ?e1 (AccessTokenKey.scopes (key ?hit))
                             (AuthOptions.clientId (authOptions (config ?c))) True),
            TokenResponse.tokenType = AccessTokenValue.tokenType (value' ?hit),
            TokenResponse.idToken = [], idTokenClaims = None,
            TokenResponse.accessToken = AccessTokenValue.accessToken (value' ?hit),
            TokenResponse.refreshToken = AccessTokenValue.refreshToken (value' ?hit),
            expiresOn =
              newDate_of_seconds (expiresOnSec (value' ?hit)),
            TokenResponse.account = Some demo_alice,
            TokenResponse.userRequestState = []\<rparr>
          = (if \<bar>4600 * 1000\<bar> \<le> (8640000000000000::int) then Some (4600 * 1000) else None)"
    by blast
  then have date1: "newDate_of_seconds (expiresOnSec (value' ?hit)) = Some 4600000"
    by simp
  from getValidToken_single_match [OF r5 s5 refl refl refl refl] fresh5 failed5
  have g: "fst (getValidToken ?e5 (Some ?r) ?c) = Inl (CollaboratorError ''id token'')"
    by blast
  from getValidToken_single_match [OF r3 s3 refl refl refl refl] fresh3 decoded3
  have b: "getValidToken ?e3 (Some ?r) ?c
     = (Inr (setResponseIdToken ?e3
           \<lparr>uniqueId = [], tenantId = [],
            TokenResponse.scopes =
              asArray ?e3 (fromString ?e3 (AccessTokenKey.scopes (key ?idt))
                             (AuthOptions.clientId (authOptions (config ?c))) True),
            TokenResponse.tokenType = AccessTokenValue.tokenType (value' ?idt),
            TokenResponse.idToken = [], idTokenClaims = None,
            TokenResponse.accessToken = AccessTokenValue.accessToken (value' ?idt),
            TokenResponse.refreshToken = AccessTokenValue.refreshToken (value' ?idt),
            expiresOn =
              newDate_of_seconds (expiresOnSec (value' ?idt)),
            TokenResponse.account = Some demo_alice,
            TokenResponse.userRequestState = []\<rparr>
           \<lparr>rawIdToken = ''raw-id-token'', claims = []\<rparr>), ?c3 ?c)"
    by blast
  let ?p = "\<lparr>clientIdParam = AuthOptions.clientId (authOptions (config ?c)),
             tokenRequestParam = ?r\<lparr>Request.authority := Some (AccessTokenKey.authority (key ?old))\<rparr>,
             codeResponseParam = None, redirectUriParam = ''https://app/redirect'',
             refreshTokenParam = Some (AccessTokenValue.refreshToken (value' ?old))\<rparr>"
  from getValidToken_single_match [OF r2 s2 refl refl refl refl, of "''https://app/redirect''"] stale2 uri2
  have d: "getValidToken ?e2 (Some ?r) ?c
             = getTokenResponse ?e2 (tokenEndpoint (defaultAuthority ?c)) ?p
                 (?r\<lparr>Request.authority := Some (AccessTokenKey.authority (key ?old))\<rparr>) None (?c3 ?c)
           \<and> calls (snd (getValidToken ?e2 (Some ?r) ?c))
             = calls (?c3 ?c) @ [SendPostCall (tokenEndpoint (defaultAuthority ?c)) (createRequestBody ?e2 ?p)]"
    by blast
  from getValidToken_single_match [OF r4 s4 refl refl refl refl] stale4 uri4
  have e: "getValidToken ?e1 (Some ?f) ?n = (Inl RedirectUriEmptyError, ?c3 ?n)"
    unfolding res by blast
  have a': "getValidToken ?e1 (Some ?r) ?c
     = (Inr \<lparr>uniqueId = [], tenantId = [], TokenResponse.scopes = [''read''],
           TokenResponse.tokenType = ''Bearer'', TokenResponse.idToken = [], idTokenClaims = None,
           TokenResponse.accessToken = ''cached-access-token'',
           TokenResponse.refreshToken = ''cached-refresh-token'',
           expiresOn = Some 4600000, TokenResponse.account = Some demo_alice,
           TokenResponse.userRequestState = []\<rparr>,
        ?c\<lparr>calls := [GetAllAccessTokensCall ''app-id'' ''https://login/common'' [] ''alice.home'']\<rparr>)"
    unfolding a c3 date1 by (simp add: demo_defs)
  have b': "getValidToken ?e3 (Some ?r) ?c
     = (Inr \<lparr>uniqueId = [], tenantId = [], TokenResponse.scopes = [''read''],
             TokenResponse.tokenType = ''Bearer'', TokenResponse.idToken = ''raw-id-token'',
             idTokenClaims = Some [],
             TokenResponse.accessToken = ''cached-access-token'',
             TokenResponse.refreshToken = ''cached-refresh-token'',
             expiresOn = Some 4600000, TokenResponse.account = Some demo_alice,
             TokenResponse.userRequestState = []\<rparr>,
        ?c\<lparr>calls := [GetAllAccessTokensCall ''app-id'' ''https://login/common'' [] ''alice.home'']\<rparr>)"
    unfolding b c3 by (simp add: demo_defs newDate_of_numeral_seconds)
  have d1: "calls (snd (getValidToken ?e2 (Some ?r) ?c))
     = [GetAllAccessTokensCall ''app-id'' ''https://login/common'' [] ''alice.home'',
        SendPostCall ''https://login/common/token''
          ''grant_type=refresh_token&refresh_token=cached-refresh-token'']"
    using d [THEN conjunct2] unfolding c3 by (simp add: demo_defs)
  have d2: "TokenResponse.accessToken (projr (fst (getValidToken ?e2 (Some ?r) ?c)))
              = ''new-access-token''"
    using d [THEN conjunct1] by (simp add: demo_defs getTokenResponse_def
          validateServerAuthorizationTokenResponse_def or_empty_def)
  from e have e': "getValidToken ?e1 (Some ?f) ?n
     = (Inl RedirectUriEmptyError,
        ?n\<lparr>calls := [GetAllAccessTokensCall ''app-id'' ''https://login/common'' [] ''alice.home'']\<rparr>)"
    unfolding c3 .
  from a' b' g d1 d2 e' show ?thesis by simp
qed

text \<open>
  C1 as stated fails: the single matching entry expires within the offset, yet no refresh
  exchange takes place, since the client has no redirect URI configured; the only call
  recorded is the cache lookup.
\<close>

theorem getValidToken_refresh_needs_redirect_uri:
  "getValidToken (demo_env [demo_item (Some 1010) ''cached-refresh-token'' None] (Inr demo_token_answer))
     (Some (demo_request [''read''] (Some demo_alice) False)) (demo_client RedirectAbsent)
   = (Inl RedirectUriEmptyError,
      (demo_client RedirectAbsent)
        \<lparr>calls := [GetAllAccessTokensCall ''app-id'' ''https://login/common'' [] ''alice.home'']\<rparr>)"
  by (simp add: demo_defs client_defs)

text \<open>
  An entry whose expiry is infinite is answered from the cache, with the Invalid Date; one
  whose expiry is not a number is renewed.
\<close>

lemma getValidToken_other_expiries:
  "fst (getValidToken
         (demo_env [(demo_item None ''cached-refresh-token'' None)
                      \<lparr>value' := (value' (demo_item None ''cached-refresh-token'' None))
                                    \<lparr>expiresOnSec := PosInfinity\<rparr>\<rparr>] (Inr demo_token_answer))
         (Some (demo_request [''read''] (Some demo_alice) False))
         (demo_client (RedirectString ''https://app/redirect'')))
   = Inr \<lparr>uniqueId = [], tenantId = [], TokenResponse.scopes = [''read''],
           TokenResponse.tokenType = ''Bearer'', TokenResponse.idToken = [], idTokenClaims = None,
           TokenResponse.accessToken = ''cached-access-token'',
           TokenResponse.refreshToken = ''cached-refresh-token'',
           expiresOn = None, TokenResponse.account = Some demo_alice,
           TokenResponse.userRequestState = []\<rparr>"
  "calls (snd (getValidToken
         (demo_env [demo_item None ''cached-refresh-token'' None] (Inr demo_token_answer))
         (Some (demo_request [''read''] (Some demo_alice) False))
         (demo_client (RedirectString ''https://app/redirect''))))
   = [GetAllAccessTokensCall ''app-id'' ''https://login/common'' [] ''alice.home'',
      SendPostCall ''https://login/common/token''
        ''grant_type=refresh_token&refresh_token=cached-refresh-token'']"
  by (simp_all add: demo_defs client_defs newDate_not_finite)

subsection \<open>Errors and the catch blocks\<close>

text \<open>
  An error thrown in the \<open>try\<close> block of \<open>acquireToken\<close> or of \<open>getValidToken\<close> is
  thrown again as it is, after the temporary cache items were reset and the account set to
  null. The errors of \<open>acquireToken\<close> are exactly those of its block; the renewal at the
  end of \<open>getValidToken\<close> is outside the reach of its \<open>catch\<close> block.
\<close>

lemma getValidToken_try_error_cleanup:
  assumes "getValidToken_try env request c = (Inl e, c1)"
  shows "getValidToken env request c
           = (Inl e, c1\<lparr>cacheStorage := resetTempCacheItems env None (cacheStorage c1),
                        SPAClient.account := None\<rparr>)"
  using assms by (simp add: getValidToken_def resetAndRethrow_def)

lemma getValidToken_renewal_not_caught:
  assumes "getValidToken_try env request c = (Inr (ReturnRenewToken renewRequest endpoint refreshToken'), c1)"
  shows "getValidToken env request c = renewToken env renewRequest endpoint refreshToken' c1"
  using assms by (simp add: getValidToken_def)

lemma acquireToken_error_cleanup:
  assumes "acquireToken_try env codeResponse c = (Inl e, c1)"
  shows "acquireToken env codeResponse c
           = (Inl e,
              c1\<lparr>cacheStorage :=
                    resetTempCacheItems env
                      (case codeResponse of None \<Rightarrow> None | Some cr \<Rightarrow> CodeResponse.userRequestState cr)
                      (cacheStorage c1),
                 SPAClient.account := None\<rparr>)"
  using assms by (simp add: acquireToken_def resetAndRethrow_def)

lemma acquireToken_errors_are_those_of_the_block:
  "fst (acquireToken env codeResponse c) = Inl e \<longleftrightarrow> fst (acquireToken_try env codeResponse c) = Inl e"
  by (cases "acquireToken_try env codeResponse c")
     (auto simp add: acquireToken_def resetAndRethrow_def split: sum.splits)

text \<open>
  C4 fails in the renewal. A signed-in client with a pending temporary request asks for a
  token whose cached entry has expired; the token endpoint answers \<open>invalid_grant\<close>.
  \<open>getValidToken\<close> fails with that server error, but the account is still set and the
  pending request is still in the store, although \<open>resetTempCacheItems\<close> would remove it.
\<close>

theorem getValidToken_renewal_error_skips_cleanup:
  "getValidToken
     (demo_env [demo_item (Some 1010) ''cached-refresh-token'' None] (Inr demo_error_answer))
     (Some (demo_request [''read''] None False))
     ((demo_client (RedirectString ''https://app/redirect''))
        \<lparr>SPAClient.account := Some demo_alice, cacheStorage := [''request.params'' \<mapsto> ''pending'']\<rparr>)
   = (Inl (ServerError ''invalid_grant'' ''refresh token expired''),
      (demo_client (RedirectString ''https://app/redirect''))
        \<lparr>SPAClient.account := Some demo_alice, cacheStorage := [''request.params'' \<mapsto> ''pending''],
         calls := [GetAllAccessTokensCall ''app-id'' ''https://login/common'' [] ''alice.home'',
                   SendPostCall ''https://login/common/token''
                     ''grant_type=refresh_token&refresh_token=cached-refresh-token'']\<rparr>)
   \<and> resetTempCacheItems
        (demo_env [demo_item (Some 1010) ''cached-refresh-token'' None] (Inr demo_error_answer)) None
        [''request.params'' \<mapsto> ''pending''] ''request.params'' = None"
  by (simp add: demo_defs client_defs)

subsection \<open>The authorization URL\<close>

lemma resolveEndpoints_state:
  "calls (snd (resolveEndpoints env sel c)) = calls c @ [ResolveEndpointsCall (canonicalAuthority (fst sel))]
   \<and> config (snd (resolveEndpoints env sel c)) = config c
   \<and> entropy (snd (resolveEndpoints env sel c)) = entropy c
   \<and> cacheStorage (snd (resolveEndpoints env sel c)) = cacheStorage c
   \<and> SPAClient.account (snd (resolveEndpoints env sel c)) = SPAClient.account c"
  by (simp add: resolveEndpoints_def Let_def split: sum.splits)

lemma resolveEndpoints_result:
  "fst (resolveEndpoints env sel c)
     = (case resolveEndpointsAsync env (fst sel) of
          Inl e \<Rightarrow> Inl (EndpointDiscoveryIncompleteError e) | Inr a \<Rightarrow> Inr a)"
  by (simp add: resolveEndpoints_def Let_def split: sum.splits)

text \<open>
  The scope set of \<open>createUrl\<close>: the constructor, then on a login call \<open>appendScopes\<close>.
\<close>

lemma createUrl_scope_failure:
  assumes "resolveEndpoints env
             (selectAuthority env (case request of None \<Rightarrow> None | Some r \<Rightarrow> Request.authority r) c) c
           = (Inr a, c1)"
    and "(case newScopeSet env
                 (case request of None \<Rightarrow> []
                  | Some r \<Rightarrow> (case Request.scopes r of None \<Rightarrow> [] | Some ss \<Rightarrow> ss))
                 (AuthOptions.clientId (authOptions (config c1))) (\<not> isLoginCall) of
            Inl e \<Rightarrow> Inl e
          | Inr scopeset0 \<Rightarrow>
              (if isLoginCall
               then appendScopes env scopeset0
                      (case request of None \<Rightarrow> None | Some r \<Rightarrow> extraScopesToConsent r)
               else Inr scopeset0)) = Inl e"
  shows "createUrl env request isLoginCall c = (Inl e, c1)"
  using assms by (auto simp add: createUrl_def Let_def split: sum.splits if_splits)

lemma createUrl_redirect_failure:
  assumes "resolveEndpoints env
             (selectAuthority env (case request of None \<Rightarrow> None | Some r \<Rightarrow> Request.authority r) c) c
           = (Inr a, c1)"
    and "(case newScopeSet env
                 (case request of None \<Rightarrow> []
                  | Some r \<Rightarrow> (case Request.scopes r of None \<Rightarrow> [] | Some ss \<Rightarrow> ss))
                 (AuthOptions.clientId (authOptions (config c1))) (\<not> isLoginCall) of
            Inl e \<Rightarrow> Inl e
          | Inr scopeset0 \<Rightarrow>
              (if isLoginCall
               then appendScopes env scopeset0
                      (case request of None \<Rightarrow> None | Some r \<Rightarrow> extraScopesToConsent r)
               else Inr scopeset0)) = Inr scopeset"
    and "getRedirectUri c1 = Inl e \<or> (\<exists>uri. getRedirectUri c1 = Inr uri \<and> validateRedirectUri uri = Some e)"
  shows "createUrl env request isLoginCall c = (Inl e, c1)"
  using assms by (auto simp add: createUrl_def Let_def split: sum.splits if_splits)

lemma getRedirectUri_unconfigured:
  assumes "AuthOptions.redirectUri (authOptions (config c)) \<in> {RedirectAbsent, RedirectString [], RedirectFunction []}"
  shows "getRedirectUri c = Inl RedirectUriEmptyError
         \<or> (\<exists>uri. getRedirectUri c = Inr uri \<and> validateRedirectUri uri = Some RedirectUriEmptyError)"
  using assms by (auto simp add: getRedirectUri_def validateRedirectUri_def isEmpty_def)

text \<open>
  C6, as amended. With no redirect URI configured (absent, the empty string, or a
  function that returns the empty string), \<open>createUrl\<close> first attempts the endpoint
  discovery of the authority, which is the one call it makes. If the discovery fails, the
  call fails with \<open>EndpointDiscoveryIncompleteError\<close>. If it succeeds, the scope set is
  built next, and an error of its constructor or of \<open>appendScopes\<close> is the error of the
  call; once the scope set is built, the call fails with \<open>RedirectUriEmptyError\<close>. In
  every case nothing was drawn from the crypto object.
\<close>

theorem createUrl_without_redirect_uri:
  assumes "AuthOptions.redirectUri (authOptions (config c))
             \<in> {RedirectAbsent, RedirectString [], RedirectFunction []}"
    and "a0 = fst (selectAuthority env (case request of None \<Rightarrow> None | Some r \<Rightarrow> Request.authority r) c)"
    and "built =
           (case newScopeSet env
                   (case request of None \<Rightarrow> []
                    | Some r \<Rightarrow> (case Request.scopes r of None \<Rightarrow> [] | Some ss \<Rightarrow> ss))
                   (AuthOptions.clientId (authOptions (config c))) (\<not> isLoginCall) of
              Inl e \<Rightarrow> Inl e
            | Inr scopeset0 \<Rightarrow>
                (if isLoginCall
                 then appendScopes env scopeset0
                        (case request of None \<Rightarrow> None | Some r \<Rightarrow> extraScopesToConsent r)
                 else Inr scopeset0))"
  shows "calls (snd (createUrl env request isLoginCall c))
           = calls c @ [ResolveEndpointsCall (canonicalAuthority a0)]
       \<and> entropy (snd (createUrl env request isLoginCall c)) = entropy c
       \<and> (\<forall>e. resolveEndpointsAsync env a0 = Inl e \<longrightarrow>
             fst (createUrl env request isLoginCall c) = Inl (EndpointDiscoveryIncompleteError e))
       \<and> (\<forall>a e. resolveEndpointsAsync env a0 = Inr a \<and> built = Inl e \<longrightarrow>
             fst (createUrl env request isLoginCall c) = Inl e)
       \<and> (\<forall>a scopeset. resolveEndpointsAsync env a0 = Inr a \<and> built = Inr scopeset \<longrightarrow>
             fst (createUrl env request isLoginCall c) = Inl RedirectUriEmptyError)"
proof -
  let ?sel = "selectAuthority env (case request of None \<Rightarrow> None | Some r \<Rightarrow> Request.authority r) c"
  obtain res c1 where res: "resolveEndpoints env ?sel c = (res, c1)"
    by (cases "resolveEndpoints env ?sel c")
  with resolveEndpoints_state [of env ?sel c] assms(2)
  have c1: "calls c1 = calls c @ [ResolveEndpointsCall (canonicalAuthority a0)]"
    "config c1 = config c" "entropy c1 = entropy c" by simp_all
  from res resolveEndpoints_result [of env ?sel c] assms(2)
  have r: "res = (case resolveEndpointsAsync env a0 of
          Inl e \<Rightarrow> Inl (EndpointDiscoveryIncompleteError e) | Inr a \<Rightarrow> Inr a)" by simp
  show ?thesis
  proof (cases res)
    case (Inl e)
    with res have "createUrl env request isLoginCall c = (Inl e, c1)"
      by (simp add: createUrl_def)
    with c1 r Inl show ?thesis by (auto split: sum.splits)
  next
    case a: (Inr a)
    show ?thesis
    proof (cases built)
      case (Inl e)
      with assms(3) c1(2) res a have "createUrl env request isLoginCall c = (Inl e, c1)"
        by (intro createUrl_scope_failure [where a = a]) simp_all
      with c1 r a Inl show ?thesis by (auto split: sum.splits)
    next
      case (Inr scopeset)
      from assms(1) c1(2) have "AuthOptions.redirectUri (authOptions (config c1))
             \<in> {RedirectAbsent, RedirectString [], RedirectFunction []}" by simp
      from getRedirectUri_unconfigured [OF this] Inr assms(3) c1(2) res a
      have "createUrl env request isLoginCall c = (Inl RedirectUriEmptyError, c1)"
        by (intro createUrl_redirect_failure [where a = a and scopeset = scopeset]) simp_all
      with c1 r a Inr show ?thesis by (auto split: sum.splits)
    qed
  qed
qed

text \<open>
  C6 at four builds with no redirect URI: a token URL for the scope \<open>read\<close> with the
  redirect URI a function that returns the empty string, a login URL with no extra scopes
  to consent to, a login URL whose extra scopes are undefined, which cannot be appended,
  and a token URL for an authority that cannot be discovered.
\<close>

theorem createUrl_without_redirect_uri_witness:
  "AuthOptions.redirectUri (authOptions (config (demo_client (RedirectFunction []))))
     \<in> {RedirectAbsent, RedirectString [], RedirectFunction []}
   \<and> createUrl (demo_env [] (Inr demo_token_answer)) (Some (demo_request [''read''] None False)) False
       (demo_client (RedirectFunction []))
     = (Inl RedirectUriEmptyError,
        (demo_client (RedirectFunction []))\<lparr>calls := [ResolveEndpointsCall ''https://login/common'']\<rparr>)
   \<and> fst (createUrl (demo_env [] (Inr demo_token_answer)) (Some demo_stored_request) True
             (demo_client RedirectAbsent))
     = Inl RedirectUriEmptyError
   \<and> fst (createUrl (demo_env [] (Inr demo_token_answer)) (Some (demo_request [''read''] None False)) True
             (demo_client RedirectAbsent))
     = Inl (CollaboratorError ''cannot_append_scopeset'')
   \<and> fst (createUrl (demo_env [] (Inr demo_token_answer))
             (Some ((demo_request [''read''] None False)\<lparr>Request.authority := Some ''https://unreachable''\<rparr>))
             False (demo_client (RedirectString [])))
     = Inl (EndpointDiscoveryIncompleteError (CollaboratorError ''network''))"
proof -
  let ?c = "demo_client (RedirectFunction [])"
  let ?n = "demo_client RedirectAbsent"
  let ?s = "demo_client (RedirectString [])"
  let ?e = "demo_env [] (Inr demo_token_answer)"
  let ?r = "demo_request [''read''] None False"
  let ?u = "(demo_request [''read''] None False)\<lparr>Request.authority := Some ''https://unreachable''\<rparr>"
  have h: "AuthOptions.redirectUri (authOptions (config ?c))
     \<in> {RedirectAbsent, RedirectString [], RedirectFunction []}"
    by (simp add: demo_defs)
  have d: "resolveEndpointsAsync ?e
             (fst (selectAuthority ?e (case Some ?r of None \<Rightarrow> None | Some r \<Rightarrow> Request.authority r) ?c))
             = Inr (defaultAuthority ?c)"
    by (simp add: demo_defs selectAuthority_def truthy_def)
  have b: "(case newScopeSet ?e
                   (case Some ?r of None \<Rightarrow> []
                    | Some r \<Rightarrow> (case Request.scopes r of None \<Rightarrow> [] | Some ss \<Rightarrow> ss))
                   (AuthOptions.clientId (authOptions (config ?c))) (\<not> False) of
              Inl e \<Rightarrow> Inl e
            | Inr scopeset0 \<Rightarrow>
                (if False
                 then appendScopes ?e scopeset0
                        (case Some ?r of None \<Rightarrow> None | Some r \<Rightarrow> extraScopesToConsent r)
                 else Inr scopeset0)) = Inr ([''read''], ''app-id'')"
    by (simp add: demo_defs)
  from createUrl_without_redirect_uri [OF h refl refl, of ?e "Some ?r" False] d b
  have "fst (createUrl ?e (Some ?r) False ?c) = Inl RedirectUriEmptyError"
    and "calls (snd (createUrl ?e (Some ?r) False ?c))
           = calls ?c @ [ResolveEndpointsCall (canonicalAuthority
               (fst (selectAuthority ?e (case Some ?r of None \<Rightarrow> None | Some r \<Rightarrow> Request.authority r) ?c)))]"
    by blast+
  moreover have "snd (createUrl ?e (Some ?r) False ?c)
      = ?c\<lparr>calls := [ResolveEndpointsCall ''https://login/common'']\<rparr>"
    by (simp add: demo_defs createUrl_def client_defs validateRedirectUri_def)
  ultimately have first: "createUrl ?e (Some ?r) False ?c
      = (Inl RedirectUriEmptyError, ?c\<lparr>calls := [ResolveEndpointsCall ''https://login/common'']\<rparr>)"
    by (simp add: prod_eq_iff)
  have h1: "AuthOptions.redirectUri (authOptions (config ?n))
     \<in> {RedirectAbsent, RedirectString [], RedirectFunction []}"
    by (simp add: demo_defs)
  have d1: "resolveEndpointsAsync ?e
             (fst (selectAuthority ?e (case Some demo_stored_request of None \<Rightarrow> None
                                       | Some r \<Rightarrow> Request.authority r) ?n))
             = Inr (defaultAuthority ?n)"
    by (simp add: demo_defs selectAuthority_def truthy_def)
  have b1: "(case newScopeSet ?e
                   (case Some demo_stored_request of None \<Rightarrow> []
                    | Some r \<Rightarrow> (case Request.scopes r of None \<Rightarrow> [] | Some ss \<Rightarrow> ss))
                   (AuthOptions.clientId (authOptions (config ?n))) (\<not> True) of
              Inl e \<Rightarrow> Inl e
            | Inr scopeset0 \<Rightarrow>
                (if True
                 then appendScopes ?e scopeset0
                        (case Some demo_stored_request of None \<Rightarrow> None | Some r \<Rightarrow> extraScopesToConsent r)
                 else Inr scopeset0)) = Inr ([''read'', ''app-id''], ''app-id'')"
    by (simp add: demo_defs)
  from createUrl_without_redirect_uri [OF h1 refl refl, of ?e "Some demo_stored_request" True] d1 b1
  have login: "fst (createUrl ?e (Some demo_stored_request) True ?n) = Inl RedirectUriEmptyError"
    by blast
  have d3: "resolveEndpointsAsync ?e
             (fst (selectAuthority ?e (case Some ?r of None \<Rightarrow> None | Some r \<Rightarrow> Request.authority r) ?n))
             = Inr (defaultAuthority ?n)"
    by (simp add: demo_defs selectAuthority_def truthy_def)
  have b3: "(case newScopeSet ?e
                   (case Some ?r of None \<Rightarrow> []
                    | Some r \<Rightarrow> (case Request.scopes r of None \<Rightarrow> [] | Some ss \<Rightarrow> ss))
                   (AuthOptions.clientId (authOptions (config ?n))) (\<not> True) of
              Inl e \<Rightarrow> Inl e
            | Inr scopeset0 \<Rightarrow>
                (if True
                 then appendScopes ?e scopeset0
                        (case Some ?r of None \<Rightarrow> None | Some r \<Rightarrow> extraScopesToConsent r)
                 else Inr scopeset0)) = Inl (CollaboratorError ''cannot_append_scopeset'')"
    by (simp add: demo_defs)
  from createUrl_without_redirect_uri [OF h1 refl refl, of ?e "Some ?r" True] d3 b3
  have undefined_extra: "fst (createUrl ?e (Some ?r) True ?n)
                           = Inl (CollaboratorError ''cannot_append_scopeset'')"
    by blast
  have h2: "AuthOptions.redirectUri (authOptions (config ?s))
     \<in> {RedirectAbsent, RedirectString [], RedirectFunction []}"
    by (simp add: demo_defs)
  have d2: "resolveEndpointsAsync ?e
             (fst (selectAuthority ?e (case Some ?u of None \<Rightarrow> None | Some r \<Rightarrow> Request.authority r) ?s))
             = Inl (CollaboratorError ''network'')"
    by (simp add: demo_defs selectAuthority_def truthy_def or_empty_def)
  from createUrl_without_redirect_uri [OF h2 refl refl, of ?e "Some ?u" False] d2
  have second: "fst (createUrl ?e (Some ?u) False ?s)
                  = Inl (EndpointDiscoveryIncompleteError (CollaboratorError ''network''))"
    by blast
  from h first login undefined_extra second show ?thesis by simp
qed

text \<open>
  C6 as stated fails: with no redirect URI configured the endpoint discovery is called
  before the configuration error is raised, and when the discovery fails the error is the
  one of the discovery.
\<close>

theorem createUrl_discovers_before_redirect_check:
  "calls (snd (createUrl (demo_env [] (Inr demo_token_answer)) (Some (demo_request [''read''] None False))
                 True (demo_client RedirectAbsent)))
     = [ResolveEndpointsCall ''https://login/common'']
   \<and> createUrl (demo_env [] (Inr demo_token_answer))
        (Some ((demo_request [''read''] None False)\<lparr>Request.authority := Some ''https://unreachable''\<rparr>))
        True (demo_client RedirectAbsent)
     = (Inl (EndpointDiscoveryIncompleteError (CollaboratorError ''network'')),
        (demo_client RedirectAbsent)\<lparr>calls := [ResolveEndpointsCall ''https://unreachable'']\<rparr>)"
  by (simp add: demo_defs createUrl_def createUrl_parameters_def client_defs validateRedirectUri_def)

text \<open>
  \<open>createUrl\<close> leaves the store and the account as they are, whatever it returns.
\<close>

lemma createUrl_keeps_store:
  "cacheStorage (snd (createUrl env request isLoginCall c)) = cacheStorage c
   \<and> SPAClient.account (snd (createUrl env request isLoginCall c)) = SPAClient.account c"
  by (simp add: createUrl_def resolveEndpoints_def Let_def
        split: prod.splits sum.splits option.splits)

lemma getCachedRequest_reads_store:
  assumes "cacheStorage c' = cacheStorage c"
  shows "fst (getCachedRequest env requestState c') = fst (getCachedRequest env requestState c)"
  using assms by (simp add: getCachedRequest_def Let_def split: sum.splits)

text \<open>
  C5 fails in its second half: no authorization-URL build persists its request. For
  every request and every client, whether the URL is built or not, the store after
  \<open>createUrl\<close> is the store before it; so \<open>getCachedRequest\<close>, given any state value, finds
  after the build what it would have found before it, and finds the same after the builds
  of two different requests: it cannot resolve the state value to the request built.
\<close>

theorem createUrl_persists_no_request:
  "cacheStorage (snd (createUrl env request isLoginCall c)) = cacheStorage c
   \<and> fst (getCachedRequest env requestState (snd (createUrl env request isLoginCall c)))
       = fst (getCachedRequest env requestState c)
   \<and> fst (getCachedRequest env requestState (snd (createUrl env request isLoginCall c)))
       = fst (getCachedRequest env requestState (snd (createUrl env otherRequest otherLoginCall c)))"
proof -
  have a: "cacheStorage (snd (createUrl env request isLoginCall c)) = cacheStorage c"
    by (simp add: createUrl_keeps_store)
  have b: "cacheStorage (snd (createUrl env otherRequest otherLoginCall c)) = cacheStorage c"
    by (simp add: createUrl_keeps_store)
  from getCachedRequest_reads_store [OF a, of env requestState]
    getCachedRequest_reads_store [OF b, of env requestState] a
  show ?thesis by simp
qed

text \<open>
  An instance: a login URL for the scope \<open>read\<close>, with no extra scopes to consent to, is
  built on an empty store, and the store is empty still; \<open>acquireToken\<close> with a code
  response that echoes the state then fails with \<open>TokenRequestCacheError\<close>. Had the request
  been stored under the key of the request parameters, \<open>getCachedRequest\<close> would have
  resolved it and \<open>acquireToken\<close> would have returned the tokens of the exchange.
\<close>

lemma createUrl_then_acquireToken_instance:
  "isl (fst (createUrl (demo_env [] (Inr demo_token_answer)) (Some demo_stored_request) True
               (demo_client (RedirectString ''https://app/redirect'')))) = False
   \<and> cacheStorage (snd (createUrl (demo_env [] (Inr demo_token_answer)) (Some demo_stored_request) True
                            (demo_client (RedirectString ''https://app/redirect''))))
     = Map.empty
   \<and> fst (acquireToken (demo_env [] (Inr demo_token_answer))
            (Some \<lparr>code = Some ''authorization-code'', CodeResponse.userRequestState = Some ''|guid-2''\<rparr>)
            (snd (createUrl (demo_env [] (Inr demo_token_answer)) (Some demo_stored_request) True
                    (demo_client (RedirectString ''https://app/redirect'')))))
     = Inl (TokenRequestCacheError (CollaboratorError ''base64''))
   \<and> fst (getCachedRequest (demo_env [] (Inr demo_token_answer)) (Some ''|guid-2'')
            ((demo_client (RedirectString ''https://app/redirect''))
               \<lparr>cacheStorage := [''request.params'' \<mapsto> ''stored-request'']\<rparr>))
     = Inr demo_stored_request
   \<and> TokenResponse.accessToken (projr (fst (acquireToken (demo_env [] (Inr demo_token_answer))
            (Some \<lparr>code = Some ''authorization-code'', CodeResponse.userRequestState = Some ''|guid-2''\<rparr>)
            ((demo_client (RedirectString ''https://app/redirect''))
               \<lparr>cacheStorage := [''request.params'' \<mapsto> ''stored-request'']\<rparr>))))
     = ''new-access-token''"
  by (simp add: demo_defs client_defs createUrl_def createUrl_parameters_def validateRedirectUri_def
        addParameter_def addExtraQueryParameters_def createQueryString_def
        acquireToken_def acquireToken_try_def getCachedRequest_def string_of_nat.simps
        getTokenResponse_def validateServerAuthorizationTokenResponse_def or_empty_def isEmpty_def
        getRedirectUri_def selectAuthority_def truthy_def resolveEndpointsUnlessComplete_def)

end
